theory Spec2Isabelle
  imports Main "HOL-Library.AList"
begin

section \<open>Strings and JavaScript truthiness\<close>

text \<open>
  Strings are lists of characters, one \<^typ>\<open>char\<close> per code unit, restricted to the
  code units below 256. \<^verbatim>\<open>String.prototype.trim\<close> removes white space and line
  terminators from both ends; of the characters it removes, those below 256 are TAB, LF,
  VT, FF, CR, SPACE and NBSP.
\<close>

definition isWhiteSpace :: "char \<Rightarrow> bool" where
  "isWhiteSpace c \<longleftrightarrow>
     c \<in> set [CHR 0x09, CHR 0x0A, CHR 0x0B, CHR 0x0C, CHR 0x0D, CHR 0x20, CHR 0xA0]"

definition trim :: "string \<Rightarrow> string" where
  "trim s = rev (dropWhile isWhiteSpace (rev (dropWhile isWhiteSpace s)))"

definition startsWith :: "string \<Rightarrow> string \<Rightarrow> bool" where
  "startsWith s p \<longleftrightarrow> take (length p) s = p"

text \<open>\<^verbatim>\<open>xs.join(sep)\<close> on an array of strings.\<close>

fun join :: "string \<Rightarrow> string list \<Rightarrow> string" where
  "join sep [] = []"
| "join sep [x] = x"
| "join sep (x # y # ys) = x @ sep @ join sep (y # ys)"

text \<open>
  A value of type \<^verbatim>\<open>string | null\<close> is truthy when it is neither \<^verbatim>\<open>null\<close> nor
  the empty string.
\<close>

definition truthy :: "string option \<Rightarrow> bool" where
  "truthy v \<longleftrightarrow> (case v of None \<Rightarrow> False | Some s \<Rightarrow> s \<noteq> [])"

text \<open>The class \<^verbatim>\<open>\D\<close> is the complement of the ten ASCII digits.\<close>

definition isDigit :: "char \<Rightarrow> bool" where
  "isDigit c \<longleftrightarrow> c \<in> set ''0123456789''"

text \<open>
  \<^verbatim>\<open>xs.slice(start, end)\<close> for non-negative arguments: both ends are clamped to the
  length, which \<^const>\<open>take\<close> and \<^const>\<open>drop\<close> do as well.
\<close>

definition slice :: "'a list \<Rightarrow> nat \<Rightarrow> nat \<Rightarrow> 'a list" where
  "slice xs start end = take (end - start) (drop start xs)"


section \<open>Plain objects and exceptions\<close>

text \<open>
  An object written \<^verbatim>\<open>{}\<close> or as an object literal inherits the members of
  \<^verbatim>\<open>Object.prototype\<close>. A read \<^verbatim>\<open>obj[key]\<close> gives the own property of that name when
  there is one, else the inherited member when the key names one, else
  \<^verbatim>\<open>undefined\<close>. The inherited members are eleven functions and the accessor
  \<^verbatim>\<open>__proto__\<close>, whose value is the prototype object itself. All of them are truthy,
  and none is a string or an array. An object is represented by the association list of
  its own properties.
\<close>

definition Object_prototype :: "string list" where
  "Object_prototype =
     [''constructor'', ''__defineGetter__'', ''__defineSetter__'', ''hasOwnProperty'',
      ''__lookupGetter__'', ''__lookupSetter__'', ''isPrototypeOf'', ''propertyIsEnumerable'',
      ''toString'', ''valueOf'', ''__proto__'', ''toLocaleString'']"

datatype 'a Property = Own 'a | Inherited string | Undefined

definition property :: "(string \<times> 'a) list \<Rightarrow> string \<Rightarrow> 'a Property" where
  "property obj key =
     (case map_of obj key of
        Some v \<Rightarrow> Own v
      | None \<Rightarrow> if key \<in> set Object_prototype then Inherited key else Undefined)"

text \<open>
  The member \<^verbatim>\<open>length\<close> of an inherited member: the number of parameters of the
  function (\<^verbatim>\<open>Object\<close> for \<^verbatim>\<open>constructor\<close>); the prototype object has none.
\<close>

definition member_length :: "string \<Rightarrow> nat option" where
  "member_length key =
     map_of [(''constructor'', 1), (''__defineGetter__'', 2), (''__defineSetter__'', 2),
             (''hasOwnProperty'', 1), (''__lookupGetter__'', 1), (''__lookupSetter__'', 1),
             (''isPrototypeOf'', 1), (''propertyIsEnumerable'', 1), (''toString'', 0),
             (''valueOf'', 0), (''toLocaleString'', 0)] key"

text \<open>
  The exception the code can raise: calling a member that is not a function
  (\<^verbatim>\<open>includes\<close>, \<^verbatim>\<open>trim\<close> or \<^verbatim>\<open>forEach\<close> of an inherited member), or reading a
  member of \<^verbatim>\<open>undefined\<close>.
\<close>

datatype JsError = TypeError


section \<open>Wire types (\<^verbatim>\<open>types/chat\<close>)\<close>

text \<open>
  Record members keep their source names; the member \<^verbatim>\<open>fields\<close> is written
  \<open>fields'\<close>, the plain name being taken by the record package. Where two records share
  a member name, it is written with the record's name in front.
\<close>

datatype ResponseType = Text | Form | End

record FieldDescriptor =
  name :: string
  type :: string
  label :: string
  options :: "string list option"

record ChatResponse =
  session_id :: string
  message :: string
  type :: ResponseType
  step :: string
  field :: "string option"
  fields' :: "FieldDescriptor list option"
  options :: "string list option"
  "done" :: bool

text \<open>
  Form submissions are objects whose values are strings or arrays of strings. The text
  of a chat message is either typed text or the output of \<^verbatim>\<open>JSON.stringify\<close> on
  such an object; the serialisation itself belongs to the JavaScript runtime, so the
  second case keeps the object that was serialised. Objects are association lists in
  insertion order; a write to an existing key keeps its position
  (\<^const>\<open>AList.update\<close>). JavaScript lists keys that are array indices first; field
  names are taken not to be such keys.
\<close>

datatype JsonValue = JString string | JArray "string list"

type_synonym JsonObject = "(string \<times> JsonValue) list"

datatype MessageText = Plain string | JSON_stringify JsonObject

datatype Role = User | Assistant

text \<open>
  A chat message as displayed. The \<^verbatim>\<open>id\<close> and \<^verbatim>\<open>timestamp\<close> members are read
  from the clock and are left out.
\<close>

record Message =
  role :: Role
  content :: MessageText

record SessionRequest =
  study_id :: string

record ChatRequest =
  session_id :: string
  message :: MessageText


section \<open>HTTP calls (\<^verbatim>\<open>lib/api.ts\<close>)\<close>

text \<open>
  A call is represented by the request it posts: the endpoint and the JSON body. The
  reply of the server is an input of the model: \<^term>\<open>Some response\<close> for a parsed
  body, \<^term>\<open>None\<close> when \<^verbatim>\<open>fetch\<close> rejects or the status is not ok and the
  call throws.
\<close>

datatype Request = POST_session SessionRequest | POST_chat ChatRequest

definition createSession :: "string \<Rightarrow> Request" where
  "createSession studyId = POST_session \<lparr>study_id = studyId\<rparr>"

definition sendChatMessage :: "string \<Rightarrow> MessageText \<Rightarrow> Request" where
  "sendChatMessage sid msg =
     POST_chat \<lparr>ChatRequest.session_id = sid, ChatRequest.message = msg\<rparr>"


section \<open>The chat hook (\<^verbatim>\<open>useChat\<close>)\<close>

record ChatState =
  messages :: "Message list"
  sessionId :: "string option"
  isLoading :: bool
  currentStep :: string
  responseType :: ResponseType
  fields' :: "FieldDescriptor list option"
  options :: "string list option"
  isDone :: bool

definition STUDY_ID :: string where
  "STUDY_ID = ''zyn''"

definition initialState :: ChatState where
  "initialState =
     \<lparr>messages = [], sessionId = None, isLoading = False, currentStep = [],
      responseType = Text, ChatState.fields' = None, ChatState.options = None,
      isDone = False\<rparr>"

definition addMessage :: "Role \<Rightarrow> MessageText \<Rightarrow> ChatState \<Rightarrow> ChatState" where
  "addMessage r c st = st\<lparr>messages := messages st @ [\<lparr>role = r, content = c\<rparr>]\<rparr>"

definition handleResponse :: "ChatResponse \<Rightarrow> ChatState \<Rightarrow> ChatState" where
  "handleResponse response st =
     (let st' = st\<lparr>sessionId := Some (ChatResponse.session_id response),
                    currentStep := step response,
                    responseType := ChatResponse.type response,
                    ChatState.fields' := ChatResponse.fields' response,
                    ChatState.options := ChatResponse.options response,
                    isDone := done response\<rparr>
      in if ChatResponse.message response \<noteq> []
         then addMessage Assistant (Plain (ChatResponse.message response)) st'
         else st')"

text \<open>
  Every asynchronous function is split at its \<^verbatim>\<open>await\<close>: the first half runs up
  to the request, the second half runs when the reply arrives (the \<^verbatim>\<open>try\<close>
  body after the \<^verbatim>\<open>await\<close>, or the \<^verbatim>\<open>catch\<close> block, and then
  \<^verbatim>\<open>finally\<close>).
\<close>

definition initSession_start :: "ChatState \<Rightarrow> Request \<times> ChatState" where
  "initSession_start st = (createSession STUDY_ID, st\<lparr>isLoading := True\<rparr>)"

definition initSession_finish :: "ChatResponse option \<Rightarrow> ChatState \<Rightarrow> ChatState" where
  "initSession_finish reply st =
     (case reply of
        Some response \<Rightarrow> handleResponse response st
      | None \<Rightarrow> addMessage Assistant
          (Plain ''Sorry, there was an error connecting. Please refresh the page to try again.'') st)
     \<lparr>isLoading := False\<rparr>"

definition initSession :: "ChatResponse option \<Rightarrow> ChatState \<Rightarrow> Request \<times> ChatState" where
  "initSession reply st =
     (case initSession_start st of (req, st') \<Rightarrow> (req, initSession_finish reply st'))"

definition sendMessage_start :: "string \<Rightarrow> ChatState \<Rightarrow> Request option \<times> ChatState" where
  "sendMessage_start msg st =
     (if \<not> truthy (sessionId st) \<or> isLoading st \<or> isDone st then (None, st)
      else (Some (sendChatMessage (the (sessionId st)) (Plain msg)),
            (addMessage User (Plain msg) st)\<lparr>isLoading := True\<rparr>))"

definition sendMessage_finish :: "ChatResponse option \<Rightarrow> ChatState \<Rightarrow> ChatState" where
  "sendMessage_finish reply st =
     (case reply of
        Some response \<Rightarrow> handleResponse response st
      | None \<Rightarrow> addMessage Assistant (Plain ''Sorry, there was an error. Please try again.'') st)
     \<lparr>isLoading := False\<rparr>"

definition sendMessage ::
  "string \<Rightarrow> ChatResponse option \<Rightarrow> ChatState \<Rightarrow> Request option \<times> ChatState" where
  "sendMessage msg reply st =
     (case sendMessage_start msg st of
        (None, st') \<Rightarrow> (None, st')
      | (Some req, st') \<Rightarrow> (Some req, sendMessage_finish reply st'))"

text \<open>The user-friendly rendering of a submitted object, one \<^verbatim>\<open>key: value\<close> line per entry.\<close>

definition displayMessage :: "JsonObject \<Rightarrow> string" where
  "displayMessage formData =
     join [CHR 0x0A]
       (map (\<lambda>(key, v). case v of
                 JArray vs \<Rightarrow> key @ '': '' @ join '', '' vs
               | JString s \<Rightarrow> key @ '': '' @ s) formData)"

definition submitForm_start :: "JsonObject \<Rightarrow> ChatState \<Rightarrow> Request option \<times> ChatState" where
  "submitForm_start formData st =
     (if \<not> truthy (sessionId st) \<or> isLoading st \<or> isDone st then (None, st)
      else (let jsonMessage = JSON_stringify formData;
                shown = (if displayMessage formData \<noteq> [] then Plain (displayMessage formData)
                         else jsonMessage)
            in (Some (sendChatMessage (the (sessionId st)) jsonMessage),
                (addMessage User shown st)\<lparr>isLoading := True\<rparr>)))"

definition submitForm_finish :: "ChatResponse option \<Rightarrow> ChatState \<Rightarrow> ChatState" where
  "submitForm_finish reply st =
     (case reply of
        Some response \<Rightarrow> handleResponse response st
      | None \<Rightarrow> addMessage Assistant (Plain ''Sorry, there was an error. Please try again.'') st)
     \<lparr>isLoading := False\<rparr>"

definition submitForm ::
  "JsonObject \<Rightarrow> ChatResponse option \<Rightarrow> ChatState \<Rightarrow> Request option \<times> ChatState" where
  "submitForm formData reply st =
     (case submitForm_start formData st of
        (None, st') \<Rightarrow> (None, st')
      | (Some req, st') \<Rightarrow> (Some req, submitForm_finish reply st'))"

text \<open>
  A session as a sequence of completed invocations: what the user did and what the server
  replied. The requests issued are collected in order.
\<close>

datatype Invocation = SendMessage string | SubmitForm JsonObject

fun invoke :: "Invocation \<Rightarrow> ChatResponse option \<Rightarrow> ChatState \<Rightarrow> Request option \<times> ChatState" where
  "invoke (SendMessage msg) reply st = sendMessage msg reply st"
| "invoke (SubmitForm formData) reply st = submitForm formData reply st"

fun run :: "(Invocation \<times> ChatResponse option) list \<Rightarrow> ChatState \<Rightarrow> Request list \<times> ChatState" where
  "run [] st = ([], st)"
| "run ((a, reply) # rest) st =
     (case invoke a reply st of
        (req, st') \<Rightarrow> (case run rest st' of (reqs, st'') \<Rightarrow> (case req of None \<Rightarrow> reqs | Some r \<Rightarrow> r # reqs, st'')))"


section \<open>The chat view (\<^verbatim>\<open>ChatInterface\<close>)\<close>

text \<open>
  What \<^verbatim>\<open>renderForm\<close> returns: the component and the properties it is given, or
  \<^term>\<open>None\<close> for \<^verbatim>\<open>null\<close>. A non-null array is truthy, also when it is empty.
\<close>

datatype FormWidget =
    RenderIdentityForm
  | RenderPinInput
  | RenderSchedulingForm "FieldDescriptor list"
  | RenderProfileForm "FieldDescriptor list"
  | RenderPrescreenForm "string list"

definition renderForm :: "ChatState \<Rightarrow> FormWidget option" where
  "renderForm st =
     (if isLoading st \<or> responseType st \<noteq> Form then None
      else if currentStep st = ''consent_given'' \<or> currentStep st = ''collecting_identity''
        then Some RenderIdentityForm
      else if currentStep st = ''awaiting_pin'' then Some RenderPinInput
      else if currentStep st = ''scheduling'' \<and> ChatState.fields' st \<noteq> None
        then Some (RenderSchedulingForm (the (ChatState.fields' st)))
      else if startsWith (currentStep st) ''collecting_group:'' \<and> ChatState.fields' st \<noteq> None
        then Some (RenderProfileForm (the (ChatState.fields' st)))
      else if startsWith (currentStep st) ''prescreen:'' \<and> ChatState.options st \<noteq> None
        then Some (RenderPrescreenForm (the (ChatState.options st)))
      else if ChatState.fields' st \<noteq> None \<and> length (the (ChatState.fields' st)) > 0
        then Some (RenderProfileForm (the (ChatState.fields' st)))
      else if ChatState.options st \<noteq> None \<and> length (the (ChatState.options st)) > 0
        then Some (RenderPrescreenForm (the (ChatState.options st)))
      else None)"

definition showTextInput :: "ChatState \<Rightarrow> bool" where
  "showTextInput st \<longleftrightarrow> responseType st = Text \<and> \<not> isDone st \<and> \<not> isLoading st"


section \<open>Form components\<close>

subsection \<open>\<^verbatim>\<open>ChatInput\<close>\<close>

text \<open>The text handed to \<^verbatim>\<open>onSend\<close>, if any.\<close>

definition ChatInput_handleSend :: "bool \<Rightarrow> string \<Rightarrow> string option" where
  "ChatInput_handleSend disabled input =
     (if trim input \<noteq> [] \<and> \<not> disabled then Some (trim input) else None)"

subsection \<open>\<^verbatim>\<open>PrescreenForm\<close>\<close>

definition PrescreenForm_handleSubmit :: "string option \<Rightarrow> string option" where
  "PrescreenForm_handleSubmit selected = (if truthy selected then selected else None)"

subsection \<open>\<^verbatim>\<open>IdentityForm\<close>\<close>

definition formatPhone :: "string \<Rightarrow> string" where
  "formatPhone value =
     (let digits = filter isDigit value in
      if length digits \<le> 3 then digits
      else if length digits \<le> 6 then slice digits 0 3 @ ''-'' @ drop 3 digits
      else slice digits 0 3 @ ''-'' @ slice digits 3 6 @ ''-'' @ slice digits 6 10)"

definition IdentityForm_handleSubmit :: "string \<Rightarrow> string \<Rightarrow> JsonObject option" where
  "IdentityForm_handleSubmit email phone =
     (if email \<noteq> [] \<and> phone \<noteq> []
      then Some [(''email'', JString email), (''phone'', JString phone)] else None)"

subsection \<open>\<^verbatim>\<open>ProfileForm\<close>\<close>

text \<open>
  The state \<^verbatim>\<open>formData\<close> is a \<^verbatim>\<open>Record<string, string>\<close>, initially \<^verbatim>\<open>{}\<close>.
  A change writes the own property of the field's name. The test
  \<^verbatim>\<open>formData[field.name]?.trim()\<close> is \<open>filled\<close>: on an inherited member,
  \<^verbatim>\<open>trim\<close> is not a function and the call throws. \<^verbatim>\<open>fields.every\<close> runs the test
  from the first field on and stops at the first field that fails it (\<open>every_filled\<close>).
\<close>

definition ProfileForm_handleChange ::
  "string \<Rightarrow> string \<Rightarrow> (string \<times> string) list \<Rightarrow> (string \<times> string) list" where
  "ProfileForm_handleChange n v formData = AList.update n v formData"

definition filled :: "(string \<times> string) list \<Rightarrow> string \<Rightarrow> JsError + bool" where
  "filled formData n =
     (case property formData n of
        Own v \<Rightarrow> Inr (trim v \<noteq> [])
      | Inherited m \<Rightarrow> Inl TypeError
      | Undefined \<Rightarrow> Inr False)"

fun every_filled :: "(string \<times> string) list \<Rightarrow> FieldDescriptor list \<Rightarrow> JsError + bool" where
  "every_filled formData [] = Inr True"
| "every_filled formData (f # fs) =
     (case filled formData (name f) of
        Inl e \<Rightarrow> Inl e
      | Inr ok \<Rightarrow> if ok then every_filled formData fs else Inr False)"

definition ProfileForm_handleSubmit ::
  "FieldDescriptor list \<Rightarrow> (string \<times> string) list \<Rightarrow> JsError + JsonObject option" where
  "ProfileForm_handleSubmit fs formData =
     (case every_filled formData fs of
        Inl e \<Rightarrow> Inl e
      | Inr allFilled \<Rightarrow>
          Inr (if allFilled then Some (map (\<lambda>(k, v). (k, JString v)) formData) else None))"

subsection \<open>\<^verbatim>\<open>SchedulingForm\<close>\<close>

text \<open>
  The state \<^verbatim>\<open>selections\<close> is a \<^verbatim>\<open>Record<string, string[]>\<close>, initially
  \<^verbatim>\<open>{}\<close>. The expression \<^verbatim>\<open>selections[name] || []\<close> is the own array of that name,
  or an inherited member, or the empty array. \<^verbatim>\<open>handleToggle\<close> calls
  \<^verbatim>\<open>includes\<close> on it, which an inherited member does not have; the check of
  \<^verbatim>\<open>handleSubmit\<close> and of \<^verbatim>\<open>isValid\<close> reads its \<^verbatim>\<open>length\<close>
  (\<open>has_selection\<close>), which a function has.
\<close>

definition handleToggle ::
  "string \<Rightarrow> string \<Rightarrow> (string \<times> string list) list
     \<Rightarrow> JsError + (string \<times> string list) list" where
  "handleToggle fieldName option prev =
     (case property prev fieldName of
        Inherited m \<Rightarrow> Inl TypeError
      | Own current \<Rightarrow>
          Inr (if option \<in> set current
               then AList.update fieldName (filter (\<lambda>o'. o' \<noteq> option) current) prev
               else AList.update fieldName (current @ [option]) prev)
      | Undefined \<Rightarrow> Inr (AList.update fieldName ([] @ [option]) prev))"

definition has_selection :: "(string \<times> string list) list \<Rightarrow> string \<Rightarrow> bool" where
  "has_selection selections n =
     (case property selections n of
        Own current \<Rightarrow> length current > 0
      | Inherited m \<Rightarrow> (case member_length m of Some l \<Rightarrow> l > 0 | None \<Rightarrow> False)
      | Undefined \<Rightarrow> False)"

definition SchedulingForm_handleSubmit ::
  "FieldDescriptor list \<Rightarrow> (string \<times> string list) list \<Rightarrow> JsonObject option" where
  "SchedulingForm_handleSubmit fs selections =
     (let allHaveSelections = list_all (\<lambda>f. has_selection selections (name f)) fs
      in if allHaveSelections then Some (map (\<lambda>(k, v). (k, JArray v)) selections) else None)"

text \<open>
  What the form renders: for every field, in order, one check box per declared option,
  with the field name and the option it passes to \<^verbatim>\<open>handleToggle\<close> and whether it
  is checked, \<^verbatim>\<open>(selections[field.name] || []).includes(option)\<close>. A field without
  options, or with none, renders no check box and evaluates nothing; the submit button
  is enabled when \<^verbatim>\<open>isValid\<close> holds, the check of \<^verbatim>\<open>handleSubmit\<close>.
\<close>

definition render_field ::
  "(string \<times> string list) list \<Rightarrow> FieldDescriptor \<Rightarrow> JsError + (string \<times> string \<times> bool) list" where
  "render_field selections f =
     (case FieldDescriptor.options f of
        None \<Rightarrow> Inr []
      | Some os \<Rightarrow>
          if os = [] then Inr []
          else (case property selections (name f) of
                  Inherited m \<Rightarrow> Inl TypeError
                | Own current \<Rightarrow> Inr (map (\<lambda>option. (name f, option, option \<in> set current)) os)
                | Undefined \<Rightarrow> Inr (map (\<lambda>option. (name f, option, False)) os)))"

fun SchedulingForm_render ::
  "FieldDescriptor list \<Rightarrow> (string \<times> string list) list \<Rightarrow> JsError + (string \<times> string \<times> bool) list" where
  "SchedulingForm_render [] selections = Inr []"
| "SchedulingForm_render (f # fs) selections =
     (case render_field selections f of
        Inl e \<Rightarrow> Inl e
      | Inr boxes \<Rightarrow>
          (case SchedulingForm_render fs selections of
             Inl e \<Rightarrow> Inl e
           | Inr rest \<Rightarrow> Inr (boxes @ rest)))"

text \<open>
  The check boxes by field name and option (\<open>checkboxes\<close>), and a sequence of clicks on
  them from a selection state on (\<open>toggles\<close>); an exception ends the sequence.
\<close>

definition checkboxes :: "FieldDescriptor list \<Rightarrow> (string \<times> string) list" where
  "checkboxes fs =
     concat (map (\<lambda>f. case FieldDescriptor.options f of
                         None \<Rightarrow> []
                       | Some os \<Rightarrow> map (\<lambda>option. (name f, option)) os) fs)"

fun toggles ::
  "(string \<times> string) list \<Rightarrow> (string \<times> string list) list
     \<Rightarrow> JsError + (string \<times> string list) list" where
  "toggles [] selections = Inr selections"
| "toggles ((fieldName, option) # clicks) selections =
     (case handleToggle fieldName option selections of
        Inl e \<Rightarrow> Inl e
      | Inr selections' \<Rightarrow> toggles clicks selections')"

text \<open>
  The own selection under a name, and the invariant of the selection state with respect
  to the rendered check boxes \<open>cbs\<close>: under every field name the selection has no
  duplicates and holds only options of check boxes rendered for that name.
\<close>

definition selection_of :: "(string \<times> string list) list \<Rightarrow> string \<Rightarrow> string list" where
  "selection_of selections fieldName =
     (case map_of selections fieldName of None \<Rightarrow> [] | Some current \<Rightarrow> current)"

definition sel_ok :: "(string \<times> string) list \<Rightarrow> (string \<times> string list) list \<Rightarrow> bool" where
  "sel_ok cbs sel \<longleftrightarrow>
     (\<forall>n. distinct (selection_of sel n) \<and> (\<forall>x\<in>set (selection_of sel n). (n, x) \<in> set cbs))"


section \<open>The script client (\<^verbatim>\<open>RRC Agent Chat\<close>, client-side logic)\<close>

text \<open>
  The second client is a plain script working on the page. Its functions that share a
  name with the hook's carry the suffix \<open>_js\<close>. The table \<^verbatim>\<open>FIELD_WIDGETS\<close> only
  sets the type and the attributes of an input element, in a branch that a field name
  inherited from \<^verbatim>\<open>Object.prototype\<close> does not reach, and is left out; an element is
  represented by what the submit handler reads from it.
\<close>

definition FIELD_OPTIONS :: "(string \<times> string list) list" where
  "FIELD_OPTIONS =
     [(''gender'', [''Male'', ''Female'', ''Non-binary'', ''Prefer not to say'']),
      (''has_smartphone'', [''Yes'', ''No'']),
      (''closest_rrc_site'', [''Raleigh'', ''Charlotte'']),
      (''pregnant_or_nursing_or_planning'', [''Yes'', ''No'']),
      (''willing_urine_drug_screen'', [''Yes'', ''No''])]"

text \<open>
  A check-box group holds its boxes in document order, each with its value and whether
  it is checked; a select and an input hold their choices and their current value.
\<close>

datatype Element =
    CheckboxGroup "(string \<times> bool) list"
  | Select "string list" string
  | Input string

text \<open>
  \<^verbatim>\<open>createFieldInput\<close> reads \<^verbatim>\<open>FIELD_OPTIONS[f.name]\<close>. When the field is not a
  multi-select with options, a truthy result sends it into the select branch, where
  \<^verbatim>\<open>(options || []).forEach\<close> is not a function on an inherited member.
\<close>

definition createFieldInput :: "FieldDescriptor \<Rightarrow> JsError + Element" where
  "createFieldInput f =
     (if FieldDescriptor.type f = ''multi_select'' \<and> FieldDescriptor.options f \<noteq> None
         \<and> length (the (FieldDescriptor.options f)) > 0
      then Inr (CheckboxGroup (map (\<lambda>opt. (opt, False)) (the (FieldDescriptor.options f))))
      else (case property FIELD_OPTIONS (name f) of
              Own os \<Rightarrow> Inr (Select os [])
            | Inherited m \<Rightarrow> Inl TypeError
            | Undefined \<Rightarrow>
                if FieldDescriptor.type f = ''select'' then Inr (Select [] []) else Inr (Input [])))"

datatype Widget = RadioGroup "string list" | InputField string | NoControl

datatype Bubble =
    MessageBubble Role MessageText
  | FormBubble string Widget
  | MultiFieldBubble string "(string \<times> Element) list"

record Client =
  sessionId :: "string option"
  conversationDone :: bool
  chat_messages :: "Bubble list"
  inputEnabled :: bool
  typing :: bool
  chat_ended :: bool

definition initialClient :: Client where
  "initialClient =
     \<lparr>Client.sessionId = None, conversationDone = False, chat_messages = [],
      inputEnabled = True, typing = False, chat_ended = False\<rparr>"

definition addMessage_js :: "Role \<Rightarrow> MessageText \<Rightarrow> Client \<Rightarrow> Client" where
  "addMessage_js r t c = c\<lparr>chat_messages := chat_messages c @ [MessageBubble r t]\<rparr>"

definition addFormMessage :: "string \<Rightarrow> string option \<Rightarrow> string list option \<Rightarrow> Client \<Rightarrow> Client" where
  "addFormMessage t fld opts c =
     (let form = (if opts \<noteq> None \<and> length (the opts) > 0 then RadioGroup (the opts)
                  else if truthy fld then InputField (the fld)
                  else NoControl)
      in c\<lparr>chat_messages := chat_messages c @ [FormBubble t form]\<rparr>)"

text \<open>
  \<^verbatim>\<open>addMultiFieldForm\<close> fills the object \<^verbatim>\<open>inputs\<close> by
  \<^verbatim>\<open>inputs[f.name] = input\<close>, field after field. For the name \<^verbatim>\<open>__proto__\<close> this
  assignment replaces the prototype of \<^verbatim>\<open>inputs\<close> by the element and creates no own
  property. From then on, an assignment to a name that is not yet an own property goes
  through the members of that element: what it does is given by the page, the parameter
  \<open>page\<close>. The state of the loop is whether the prototype has been replaced, and the own
  properties. After the loop the function reads \<^verbatim>\<open>tagName\<close> of the last own
  property, which throws when there is none; an exception leaves the page as it was.
\<close>

datatype Assignment = Creates | Ignored | Throws

definition assign_input ::
  "(string \<Rightarrow> Assignment) \<Rightarrow> bool \<times> (string \<times> Element) list \<Rightarrow> FieldDescriptor
     \<Rightarrow> JsError + bool \<times> (string \<times> Element) list" where
  "assign_input page acc f =
     (case acc of
        (replaced, inputs) \<Rightarrow>
          (case createFieldInput f of
             Inl e \<Rightarrow> Inl e
           | Inr el \<Rightarrow>
               if name f = ''__proto__'' then Inr (True, inputs)
               else if \<not> replaced \<or> map_of inputs (name f) \<noteq> None
                 then Inr (replaced, AList.update (name f) el inputs)
               else (case page (name f) of
                       Creates \<Rightarrow> Inr (replaced, AList.update (name f) el inputs)
                     | Ignored \<Rightarrow> Inr (replaced, inputs)
                     | Throws \<Rightarrow> Inl TypeError)))"

fun fill_inputs ::
  "(string \<Rightarrow> Assignment) \<Rightarrow> bool \<times> (string \<times> Element) list \<Rightarrow> FieldDescriptor list
     \<Rightarrow> JsError + bool \<times> (string \<times> Element) list" where
  "fill_inputs page acc [] = Inr acc"
| "fill_inputs page acc (f # fs) =
     (case assign_input page acc f of
        Inl e \<Rightarrow> Inl e
      | Inr acc' \<Rightarrow> fill_inputs page acc' fs)"

definition addMultiFieldForm ::
  "(string \<Rightarrow> Assignment) \<Rightarrow> string \<Rightarrow> FieldDescriptor list \<Rightarrow> Client \<Rightarrow> JsError + Client" where
  "addMultiFieldForm page t fs c =
     (case fill_inputs page (False, []) fs of
        Inl e \<Rightarrow> Inl e
      | Inr (replaced, inputs) \<Rightarrow>
          if inputs = [] then Inl TypeError
          else Inr (c\<lparr>chat_messages := chat_messages c @ [MultiFieldBubble t inputs]\<rparr>))"

text \<open>The click handler of a radio form; \<open>checked\<close> is the index of the checked radio, if any.\<close>

definition addFormMessage_radio_onclick :: "string list \<Rightarrow> nat option \<Rightarrow> string option" where
  "addFormMessage_radio_onclick opts checked =
     (case checked of
        None \<Rightarrow> None
      | Some i \<Rightarrow> if i < length opts then Some (opts ! i) else None)"

text \<open>The click handler of a single input; \<open>v\<close> is the value of the input element.\<close>

definition addFormMessage_input_onclick :: "string \<Rightarrow> string option" where
  "addFormMessage_input_onclick v = (if trim v \<noteq> [] then Some (trim v) else None)"

text \<open>
  The click handler of a multi-field form: the loop over \<^verbatim>\<open>Object.entries(inputs)\<close>
  that builds \<^verbatim>\<open>data\<close> and \<^verbatim>\<open>allFilled\<close> (its body is \<open>collect_step\<close>), then
  the early return.
\<close>

definition collect_step :: "bool \<times> JsonObject \<Rightarrow> string \<times> Element \<Rightarrow> bool \<times> JsonObject" where
  "collect_step acc entry =
     (case (acc, entry) of
        ((allFilled, data), (n, el)) \<Rightarrow>
          (case el of
             CheckboxGroup boxes \<Rightarrow>
               (let checked = map fst (filter snd boxes)
                in (allFilled \<and> checked \<noteq> [], AList.update n (JArray checked) data))
           | Select choices v \<Rightarrow>
               (if trim v = [] then (False, data)
                else (allFilled, AList.update n (JString (trim v)) data))
           | Input v \<Rightarrow>
               (if trim v = [] then (False, data)
                else (allFilled, AList.update n (JString (trim v)) data))))"

definition collect :: "(string \<times> Element) list \<Rightarrow> bool \<times> JsonObject" where
  "collect inputs = foldl collect_step (True, []) inputs"

definition addMultiFieldForm_onclick :: "(string \<times> Element) list \<Rightarrow> MessageText option" where
  "addMultiFieldForm_onclick inputs =
     (case collect inputs of
        (allFilled, data) \<Rightarrow> if \<not> allFilled then None else Some (JSON_stringify data))"

text \<open>
  \<^verbatim>\<open>renderResponse\<close> adds the bubble and then looks at \<^verbatim>\<open>done\<close>; an exception
  of \<^verbatim>\<open>addMultiFieldForm\<close> leaves it before that.
\<close>

definition renderResponse ::
  "(string \<Rightarrow> Assignment) \<Rightarrow> ChatResponse \<Rightarrow> Client \<Rightarrow> JsError + Client" where
  "renderResponse page data c =
     (case
        (if ChatResponse.type data = Form \<and> ChatResponse.fields' data \<noteq> None
            \<and> length (the (ChatResponse.fields' data)) > 0
         then addMultiFieldForm page (ChatResponse.message data) (the (ChatResponse.fields' data)) c
         else if ChatResponse.type data = Form
            \<and> (truthy (field data) \<or> ChatResponse.options data \<noteq> None)
         then Inr (addFormMessage (ChatResponse.message data) (field data)
                     (ChatResponse.options data) c)
         else Inr (addMessage_js Assistant (Plain (ChatResponse.message data)) c))
      of
        Inl e \<Rightarrow> Inl e
      | Inr c' \<Rightarrow>
          Inr (if done data
               then c'\<lparr>conversationDone := True, chat_ended := True, inputEnabled := False\<rparr>
               else c'\<lparr>inputEnabled := True\<rparr>))"

text \<open>
  \<^verbatim>\<open>startSession\<close> and \<^verbatim>\<open>sendMessage\<close> call \<^verbatim>\<open>renderResponse\<close> inside their
  \<^verbatim>\<open>try\<close>: an exception of the rendering goes to the same \<^verbatim>\<open>catch\<close> as a failed
  request.
\<close>

definition startSession_start :: "Client \<Rightarrow> Request \<times> Client" where
  "startSession_start c = (POST_session \<lparr>study_id = ''zyn''\<rparr>, c)"

definition startSession_finish ::
  "(string \<Rightarrow> Assignment) \<Rightarrow> ChatResponse option \<Rightarrow> Client \<Rightarrow> Client" where
  "startSession_finish page reply c =
     (case reply of
        Some data \<Rightarrow>
          (case renderResponse page data (c\<lparr>Client.sessionId := Some (ChatResponse.session_id data)\<rparr>) of
             Inr c' \<Rightarrow> c'
           | Inl e \<Rightarrow> addMessage_js Assistant
               (Plain ''Unable to connect to the server. Please try again later.'')
               (c\<lparr>Client.sessionId := Some (ChatResponse.session_id data)\<rparr>))
      | None \<Rightarrow> addMessage_js Assistant
          (Plain ''Unable to connect to the server. Please try again later.'') c)"

definition startSession ::
  "(string \<Rightarrow> Assignment) \<Rightarrow> ChatResponse option \<Rightarrow> Client \<Rightarrow> Request \<times> Client" where
  "startSession page reply c =
     (case startSession_start c of (req, c') \<Rightarrow> (req, startSession_finish page reply c'))"

text \<open>
  \<^verbatim>\<open>!text.trim()\<close>: the serialisation of an object is never blank, as it starts with
  a brace.
\<close>

definition blank :: "MessageText \<Rightarrow> bool" where
  "blank t \<longleftrightarrow> (case t of Plain s \<Rightarrow> trim s = [] | JSON_stringify data \<Rightarrow> False)"

definition sendMessage_js_start :: "MessageText \<Rightarrow> Client \<Rightarrow> Request option \<times> Client" where
  "sendMessage_js_start t c =
     (if \<not> truthy (Client.sessionId c) \<or> conversationDone c \<or> blank t then (None, c)
      else (Some (POST_chat \<lparr>ChatRequest.session_id = the (Client.sessionId c),
                              ChatRequest.message = t\<rparr>),
            (addMessage_js User t c)\<lparr>inputEnabled := False, typing := True\<rparr>))"

definition sendMessage_js_finish ::
  "(string \<Rightarrow> Assignment) \<Rightarrow> ChatResponse option \<Rightarrow> Client \<Rightarrow> Client" where
  "sendMessage_js_finish page reply c =
     (case reply of
        Some data \<Rightarrow>
          (case renderResponse page data (c\<lparr>typing := False\<rparr>) of
             Inr c' \<Rightarrow> c'
           | Inl e \<Rightarrow> (addMessage_js Assistant (Plain ''Something went wrong. Please try again.'')
                         (c\<lparr>typing := False\<rparr>))\<lparr>inputEnabled := True\<rparr>)
      | None \<Rightarrow> (addMessage_js Assistant (Plain ''Something went wrong. Please try again.'')
                   (c\<lparr>typing := False\<rparr>))\<lparr>inputEnabled := True\<rparr>)"

definition sendMessage_js ::
  "(string \<Rightarrow> Assignment) \<Rightarrow> MessageText \<Rightarrow> ChatResponse option \<Rightarrow> Client
     \<Rightarrow> Request option \<times> Client" where
  "sendMessage_js page t reply c =
     (case sendMessage_js_start t c of
        (None, c') \<Rightarrow> (None, c')
      | (Some req, c') \<Rightarrow> (Some req, sendMessage_js_finish page reply c'))"

fun run_js ::
  "(string \<Rightarrow> Assignment) \<Rightarrow> (MessageText \<times> ChatResponse option) list \<Rightarrow> Client
     \<Rightarrow> Request list \<times> Client" where
  "run_js page [] c = ([], c)"
| "run_js page ((t, reply) # rest) c =
     (case sendMessage_js page t reply c of
        (req, c') \<Rightarrow> (case run_js page rest c' of (reqs, c'') \<Rightarrow> (case req of None \<Rightarrow> reqs | Some r \<Rightarrow> r # reqs, c'')))"


section \<open>Session storage (\<^verbatim>\<open>init.sql\<close>)\<close>

datatype SqlType = VARCHAR nat | JSONB | TIMESTAMPTZ

datatype SqlDefault = NOW

record Column =
  column_name :: string
  data_type :: SqlType
  primary_key :: bool
  not_null :: bool
  column_default :: "SqlDefault option"

definition rrc_sessions :: "Column list" where
  "rrc_sessions =
     [\<lparr>column_name = ''session_id'', data_type = VARCHAR 36, primary_key = True,
       not_null = False, column_default = None\<rparr>,
      \<lparr>column_name = ''study_id'', data_type = VARCHAR 40, primary_key = False,
       not_null = True, column_default = None\<rparr>,
      \<lparr>column_name = ''state'', data_type = JSONB, primary_key = False,
       not_null = True, column_default = None\<rparr>,
      \<lparr>column_name = ''created_at'', data_type = TIMESTAMPTZ, primary_key = False,
       not_null = True, column_default = Some NOW\<rparr>,
      \<lparr>column_name = ''updated_at'', data_type = TIMESTAMPTZ, primary_key = False,
       not_null = True, column_default = Some NOW\<rparr>]"

text \<open>
  A primary key is unique and not null, so the rows of the table form a partial map
  from the key to the remaining four columns. The state document is opaque: the type
  \<open>'doc\<close>. Time stamps are natural numbers.
\<close>

record 'doc SessionRow =
  row_study_id :: string
  row_state :: 'doc
  row_created_at :: nat
  row_updated_at :: nat

type_synonym 'doc Sessions = "string \<Rightarrow> 'doc SessionRow option"

text \<open>
  Modelled from the spec: the Session Store operation \<^verbatim>\<open>load\<close>, which no source
  file contains. The spec gives \<^verbatim>\<open>load(session_id) -> state | not-found\<close>.
\<close>

definition load :: "string \<Rightarrow> 'doc Sessions \<Rightarrow> 'doc option" where
  "load sid db = map_option row_state (db sid)"

text \<open>
  Modelled from the spec: the Session Store operation \<^verbatim>\<open>save\<close>, which no source
  file contains. The spec gives \<^verbatim>\<open>save(session_id, state) -> ack\<close>,
  last-write-wins, on the record
  \<^verbatim>\<open>{session_id, study_id, state document, created_at, updated_at}\<close>, the entire
  value being persisted and not partial fields. A save writes the whole document under the
  key and the time of the write; it creates the row when the key is new.
\<close>

definition save :: "string \<Rightarrow> string \<Rightarrow> 'doc \<Rightarrow> nat \<Rightarrow> 'doc Sessions \<Rightarrow> 'doc Sessions" where
  "save sid study doc now db =
     db(sid \<mapsto>
        (case db sid of
           None \<Rightarrow> \<lparr>row_study_id = study, row_state = doc,
                     row_created_at = now, row_updated_at = now\<rparr>
         | Some row \<Rightarrow> row\<lparr>row_state := doc, row_updated_at := now\<rparr>))"


section \<open>Eligibility rules\<close>

text \<open>
  Modelled from the spec: the Eligibility Engine, which no source file contains. The
  spec gives its input as a profile (a mapping from fields to values), the pre-screen
  answers (ordered) and an ordered rule list, each rule with a field, an operator among
  \<^verbatim>\<open>eq, neq, lt, lte, gt, gte, in, not_in, range\<close>, its value or values, an effect
  (include-required or exclude-if-matched) and a reason code; and its output as
  eligible, ineligible with a reason, or undetermined with the missing fields.
  The spec does not say what an operator means on a value, so the test is the
  parameter \<open>holds\<close>.
\<close>

datatype Operator = Eq | Neq | Lt | Lte | Gt | Gte | In | Not_in | Range

datatype Effect = Include_required | Exclude_if_matched

record 'v Rule =
  rule_field :: string
  operator :: Operator
  rule_values :: "'v list"
  effect :: Effect
  reason_code :: string

datatype Outcome = Eligible | Ineligible string | Undetermined "string list"

text \<open>
  Modelled from the spec: the value of a field in the engine's input, the profile and
  the pre-screen answers. The spec does not say which is read first; the model reads the
  profile, then the answers.
\<close>

definition field_value :: "(string \<Rightarrow> 'v option) \<Rightarrow> (string \<times> 'v) list \<Rightarrow> string \<Rightarrow> 'v option" where
  "field_value profile answers f =
     (case profile f of Some v \<Rightarrow> Some v | None \<Rightarrow> map_of answers f)"

text \<open>
  Modelled from the spec: the verdict of one rule. A rule whose field is absent has no
  verdict (\<^term>\<open>None\<close>, undetermined); otherwise the verdict is whether the operator
  test holds of the field's value. An include-required rule is satisfied, and an
  exclude-if-matched rule matches, when the verdict is \<^term>\<open>Some True\<close>.
\<close>

definition rule_verdict ::
  "(Operator \<Rightarrow> 'v \<Rightarrow> 'v list \<Rightarrow> bool) \<Rightarrow> (string \<Rightarrow> 'v option) \<Rightarrow> (string \<times> 'v) list
     \<Rightarrow> 'v Rule \<Rightarrow> bool option" where
  "rule_verdict holds profile answers r =
     map_option (\<lambda>v. holds (operator r) v (rule_values r))
       (field_value profile answers (rule_field r))"

text \<open>
  Modelled from the spec: the missing fields that an undetermined outcome names, the
  fields of the rules whose field is absent, in rule order.
\<close>

definition missing_fields ::
  "(string \<Rightarrow> 'v option) \<Rightarrow> (string \<times> 'v) list \<Rightarrow> 'v Rule list \<Rightarrow> string list" where
  "missing_fields profile answers rules =
     map rule_field (filter (\<lambda>r. field_value profile answers (rule_field r) = None) rules)"

text \<open>Modelled from the spec: an exclude-if-matched rule that matches.\<close>

definition excluded_by ::
  "(Operator \<Rightarrow> 'v \<Rightarrow> 'v list \<Rightarrow> bool) \<Rightarrow> (string \<Rightarrow> 'v option) \<Rightarrow> (string \<times> 'v) list
     \<Rightarrow> 'v Rule \<Rightarrow> bool" where
  "excluded_by holds profile answers r \<longleftrightarrow>
     effect r = Exclude_if_matched \<and> rule_verdict holds profile answers r = Some True"

text \<open>
  Modelled from the spec: an include-required rule that is not satisfied although its
  field is present.
\<close>

definition unsatisfied ::
  "(Operator \<Rightarrow> 'v \<Rightarrow> 'v list \<Rightarrow> bool) \<Rightarrow> (string \<Rightarrow> 'v option) \<Rightarrow> (string \<times> 'v) list
     \<Rightarrow> 'v Rule \<Rightarrow> bool" where
  "unsatisfied holds profile answers r \<longleftrightarrow>
     effect r = Include_required \<and> rule_verdict holds profile answers r = Some False"

text \<open>
  Modelled from the spec: the outcome. A rule with an absent field makes the outcome
  undetermined and names the field; otherwise the first matching exclude rule in declared
  order gives the reason of ineligibility. Where the spec is silent, the model takes the
  following: missing fields are listed in rule order; an include-required rule that is
  not satisfied, with no exclude rule matching, makes the participant ineligible with
  that rule's reason code.
\<close>

definition evaluate ::
  "(Operator \<Rightarrow> 'v \<Rightarrow> 'v list \<Rightarrow> bool) \<Rightarrow> (string \<Rightarrow> 'v option) \<Rightarrow> (string \<times> 'v) list
     \<Rightarrow> 'v Rule list \<Rightarrow> Outcome" where
  "evaluate holds profile answers rules =
     (if missing_fields profile answers rules \<noteq> []
      then Undetermined (missing_fields profile answers rules)
      else case find (excluded_by holds profile answers) rules of
             Some r \<Rightarrow> Ineligible (reason_code r)
           | None \<Rightarrow>
               (case find (unsatisfied holds profile answers) rules of
                  Some r \<Rightarrow> Ineligible (reason_code r)
                | None \<Rightarrow> Eligible))"

text \<open>
  Modelled from the spec: one reading of the nine operators, on integers. It is used only
  to run the model on examples; the statements below hold for every test \<open>holds\<close>.
\<close>

fun holds_int :: "Operator \<Rightarrow> int \<Rightarrow> int list \<Rightarrow> bool" where
  "holds_int Eq v vs = (vs = [v])"
| "holds_int Neq v vs = (vs \<noteq> [v])"
| "holds_int Lt v vs = (case vs of [x] \<Rightarrow> v < x | _ \<Rightarrow> False)"
| "holds_int Lte v vs = (case vs of [x] \<Rightarrow> v \<le> x | _ \<Rightarrow> False)"
| "holds_int Gt v vs = (case vs of [x] \<Rightarrow> v > x | _ \<Rightarrow> False)"
| "holds_int Gte v vs = (case vs of [x] \<Rightarrow> v \<ge> x | _ \<Rightarrow> False)"
| "holds_int In v vs = (v \<in> set vs)"
| "holds_int Not_in v vs = (v \<notin> set vs)"
| "holds_int Range v vs = (case vs of [lo, hi] \<Rightarrow> lo \<le> v \<and> v \<le> hi | _ \<Rightarrow> False)"


section \<open>Sample data\<close>

text \<open>
  Responses, states, fields and rules on which the definitions are run: a greeting, the
  two clients after the bootstrap, a PIN prompt, a final response, a form without a
  control, a scheduling form, a profile form with one text field, and three rules.
\<close>

definition greeting_response :: "string \<Rightarrow> ChatResponse" where
  "greeting_response sid =
     \<lparr>ChatResponse.session_id = sid, ChatResponse.message = ''Welcome to the study screening.'',
      ChatResponse.type = Text, step = ''greeting'', field = None,
      ChatResponse.fields' = None, ChatResponse.options = None, done = False\<rparr>"

definition established :: ChatState where
  "established = snd (initSession (Some (greeting_response ''s1'')) initialState)"

text \<open>A page on which an assignment through the members of an element creates the property.\<close>

definition plain_page :: "string \<Rightarrow> Assignment" where
  "plain_page key = Creates"

definition established_js :: Client where
  "established_js = snd (startSession plain_page (Some (greeting_response ''s1'')) initialClient)"

definition pin_response :: ChatResponse where
  "pin_response =
     \<lparr>ChatResponse.session_id = ''s1'', ChatResponse.message = ''Please enter your PIN.'',
      ChatResponse.type = Form, step = ''awaiting_pin'', field = Some ''pin'',
      ChatResponse.fields' = None, ChatResponse.options = None, done = False\<rparr>"

definition handoff_response :: ChatResponse where
  "handoff_response =
     \<lparr>ChatResponse.session_id = ''s1'', ChatResponse.message = ''Thank you for your time.'',
      ChatResponse.type = End, step = ''handoff'', field = None,
      ChatResponse.fields' = None, ChatResponse.options = None, done = True\<rparr>"

definition bare_form_response :: ChatResponse where
  "bare_form_response =
     \<lparr>ChatResponse.session_id = ''s1'', ChatResponse.message = ''Please wait.'',
      ChatResponse.type = Form, step = ''eligibility'', field = None,
      ChatResponse.fields' = Some [], ChatResponse.options = None, done = False\<rparr>"

definition scheduling_fields :: "FieldDescriptor list" where
  "scheduling_fields =
     [\<lparr>name = ''days'', FieldDescriptor.type = ''multi_select'', label = ''Which days work for you?'',
       FieldDescriptor.options = Some [''Mon'', ''Tue'', ''Wed'']\<rparr>,
      \<lparr>name = ''times'', FieldDescriptor.type = ''multi_select'', label = ''Which times work for you?'',
       FieldDescriptor.options = Some [''AM'', ''PM'']\<rparr>]"

definition scheduling_response :: ChatResponse where
  "scheduling_response =
     \<lparr>ChatResponse.session_id = ''s1'', ChatResponse.message = ''You qualify. Pick your availability.'',
      ChatResponse.type = Form, step = ''scheduling'', field = None,
      ChatResponse.fields' = Some scheduling_fields, ChatResponse.options = None, done = False\<rparr>"

definition zip_field :: FieldDescriptor where
  "zip_field = \<lparr>name = ''zip_code'', FieldDescriptor.type = ''text'', label = ''ZIP code'',
                 FieldDescriptor.options = None\<rparr>"

definition profile_response :: ChatResponse where
  "profile_response =
     \<lparr>ChatResponse.session_id = ''s1'', ChatResponse.message = ''Where do you live?'',
      ChatResponse.type = Form, step = ''collecting_group:location'', field = None,
      ChatResponse.fields' = Some [zip_field], ChatResponse.options = None, done = False\<rparr>"

definition constructor_field :: FieldDescriptor where
  "constructor_field =
     \<lparr>name = ''constructor'', FieldDescriptor.type = ''multi_select'', label = ''Preferred days'',
      FieldDescriptor.options = None\<rparr>"

definition constructor_response :: ChatResponse where
  "constructor_response =
     \<lparr>ChatResponse.session_id = ''s1'', ChatResponse.message = ''Pick your availability.'',
      ChatResponse.type = Form, step = ''scheduling'', field = None,
      ChatResponse.fields' = Some [constructor_field], ChatResponse.options = None, done = False\<rparr>"

definition zyn_rules :: "int Rule list" where
  "zyn_rules =
     [\<lparr>rule_field = ''uses_nicotine'', operator = Eq, rule_values = [1],
       effect = Include_required, reason_code = ''not_a_nicotine_user''\<rparr>,
      \<lparr>rule_field = ''age'', operator = Lt, rule_values = [21],
       effect = Exclude_if_matched, reason_code = ''under_minimum_age''\<rparr>,
      \<lparr>rule_field = ''cigarettes_per_day'', operator = Gt, rule_values = [40],
       effect = Exclude_if_matched, reason_code = ''heavy_smoker''\<rparr>]"



section \<open>The response shape\<close>

lemma handleResponse_props:
  "currentStep (handleResponse r st) = step r"
  "responseType (handleResponse r st) = ChatResponse.type r"
  "ChatState.fields' (handleResponse r st) = ChatResponse.fields' r"
  "ChatState.options (handleResponse r st) = ChatResponse.options r"
  "isDone (handleResponse r st) = done r"
  "ChatState.sessionId (handleResponse r st) = Some (ChatResponse.session_id r)"
  "isLoading (handleResponse r st) = isLoading st"
  by (simp_all add: handleResponse_def addMessage_def Let_def)

text \<open>
  Claim C1, as stated: every turn-call response and session-bootstrap response has
  exactly the shape \<^verbatim>\<open>{step, message, type, field | fields | options, done}\<close>.
  This fails: two responses can agree on every one of these members and still differ,
  in the member \<^verbatim>\<open>session_id\<close>, which \<^verbatim>\<open>handleResponse\<close> reads.
\<close>

theorem ChatResponse_shape_counterexample:
  "step (greeting_response ''s1'') = step (greeting_response ''s2'')
   \<and> ChatResponse.message (greeting_response ''s1'') = ChatResponse.message (greeting_response ''s2'')
   \<and> ChatResponse.type (greeting_response ''s1'') = ChatResponse.type (greeting_response ''s2'')
   \<and> field (greeting_response ''s1'') = field (greeting_response ''s2'')
   \<and> ChatResponse.fields' (greeting_response ''s1'') = ChatResponse.fields' (greeting_response ''s2'')
   \<and> ChatResponse.options (greeting_response ''s1'') = ChatResponse.options (greeting_response ''s2'')
   \<and> done (greeting_response ''s1'') = done (greeting_response ''s2'')
   \<and> greeting_response ''s1'' \<noteq> greeting_response ''s2''
   \<and> ChatState.sessionId (handleResponse (greeting_response ''s1'') initialState)
       \<noteq> ChatState.sessionId (handleResponse (greeting_response ''s2'') initialState)"
  by (simp add: greeting_response_def handleResponse_def addMessage_def initialState_def)

text \<open>
  Claim C1, amended: a response, of a turn call or of the session bootstrap, has exactly
  the members \<^verbatim>\<open>session_id\<close>, \<^verbatim>\<open>step\<close>, \<^verbatim>\<open>message\<close>, \<^verbatim>\<open>type\<close>,
  \<^verbatim>\<open>field\<close>, \<^verbatim>\<open>fields\<close>, \<^verbatim>\<open>options\<close> and \<^verbatim>\<open>done\<close> (two responses that agree
  on these eight are equal); its type is one of text, form and end; a field descriptor
  has exactly the members \<^verbatim>\<open>name\<close>, \<^verbatim>\<open>type\<close>, \<^verbatim>\<open>label\<close> and the optional
  \<^verbatim>\<open>options\<close>; and the client takes its session identifier from the response.
\<close>

theorem ChatResponse_shape:
  fixes r r' :: ChatResponse and f f' :: FieldDescriptor
  shows "(r = r') =
           (ChatResponse.session_id r = ChatResponse.session_id r'
            \<and> step r = step r' \<and> ChatResponse.message r = ChatResponse.message r'
            \<and> ChatResponse.type r = ChatResponse.type r'
            \<and> field r = field r' \<and> ChatResponse.fields' r = ChatResponse.fields' r'
            \<and> ChatResponse.options r = ChatResponse.options r' \<and> done r = done r')
         \<and> ChatResponse.type r \<in> {Text, Form, End}
         \<and> (f = f') =
           (name f = name f' \<and> FieldDescriptor.type f = FieldDescriptor.type f'
            \<and> label f = label f' \<and> FieldDescriptor.options f = FieldDescriptor.options f')
         \<and> ChatState.sessionId (handleResponse r st) = Some (ChatResponse.session_id r)"
proof -
  have a: "(r = r') =
           (ChatResponse.session_id r = ChatResponse.session_id r'
            \<and> step r = step r' \<and> ChatResponse.message r = ChatResponse.message r'
            \<and> ChatResponse.type r = ChatResponse.type r'
            \<and> field r = field r' \<and> ChatResponse.fields' r = ChatResponse.fields' r'
            \<and> ChatResponse.options r = ChatResponse.options r' \<and> done r = done r')"
    by (cases r, cases r') auto
  have b: "ChatResponse.type r \<in> {Text, Form, End}"
    by (cases "ChatResponse.type r") simp_all
  have c: "(f = f') =
           (name f = name f' \<and> FieldDescriptor.type f = FieldDescriptor.type f'
            \<and> label f = label f' \<and> FieldDescriptor.options f = FieldDescriptor.options f')"
    by (cases f, cases f') auto
  have d: "ChatState.sessionId (handleResponse r st) = Some (ChatResponse.session_id r)"
    by (simp add: handleResponse_def addMessage_def Let_def)
  from a b c d show ?thesis by blast
qed


theorem ChatResponse_shape_witness:
  "ChatResponse.type (greeting_response ''s1'') \<in> {Text, Form, End}
   \<and> ChatState.sessionId (handleResponse (greeting_response ''s1'') initialState) = Some ''s1''
   \<and> greeting_response ''s1'' \<noteq> greeting_response ''s2''
   \<and> \<lparr>name = ''zip_code'', FieldDescriptor.type = ''text'', label = ''ZIP code'',
        FieldDescriptor.options = None\<rparr> = zip_field"
  using ChatResponse_shape [where r = "greeting_response ''s1''" and r' = "greeting_response ''s2''"
      and st = initialState and f = zip_field
      and f' = "\<lparr>name = ''zip_code'', FieldDescriptor.type = ''text'', label = ''ZIP code'',
        FieldDescriptor.options = None\<rparr>"]
  by (simp add: greeting_response_def zip_field_def)


section \<open>Form submissions\<close>

text \<open>
  What the handlers hand on when they submit. The single-field and single-choice widgets
  pass a plain string: the trimmed input or the selected option. The multi-field form
  of the script client, whose inputs have distinct names, passes the object that maps
  each name to the array of checked values of a check-box group and to the trimmed value
  of any other element.
\<close>

lemma rtrim_Cons:
  assumes "\<not> P x"
  shows "rev (dropWhile P (rev (x # xs))) = x # rev (dropWhile P (rev xs))"
  using assms by (simp add: dropWhile_append)

lemma trim_idem: "trim (trim s) = trim s"
proof (cases "dropWhile isWhiteSpace s")
  case Nil
  have e: "trim [] = []" by (simp add: trim_def)
  have "trim s = []" unfolding trim_def Nil by simp
  then show ?thesis by (simp add: e)
next
  case (Cons x xs)
  then have nx: "\<not> isWhiteSpace x"
    using hd_dropWhile[of isWhiteSpace s] by fastforce
  have "trim s = rev (dropWhile isWhiteSpace (rev (x # xs)))"
    by (simp only: trim_def Cons)
  also have "\<dots> = x # rev (dropWhile isWhiteSpace (rev xs))"
    using nx by (rule rtrim_Cons)
  finally have t: "trim s = x # rev (dropWhile isWhiteSpace (rev xs))" .
  have "dropWhile isWhiteSpace (trim s) = trim s"
    by (simp add: t nx)
  then have "trim (trim s) = rev (dropWhile isWhiteSpace (rev (trim s)))"
    by (simp add: trim_def)
  also have "\<dots> = trim s"
    by (simp add: trim_def)
  finally show ?thesis .
qed

lemma ChatInput_handleSend_Some:
  assumes "ChatInput_handleSend disabled input = Some t"
  shows "t = trim input" and "trim t = t" and "t \<noteq> []" and "\<not> disabled"
  using assms by (auto simp add: ChatInput_handleSend_def trim_idem split: if_splits)

lemma PrescreenForm_handleSubmit_Some:
  assumes "PrescreenForm_handleSubmit sel = Some v"
  shows "sel = Some v" and "v \<noteq> []"
  using assms by (auto simp add: PrescreenForm_handleSubmit_def truthy_def split: if_splits)

lemma addFormMessage_radio_onclick_Some:
  assumes "addFormMessage_radio_onclick opts checked = Some v"
  shows "v \<in> set opts"
  using assms by (auto simp add: addFormMessage_radio_onclick_def split: option.splits if_splits)

lemma addFormMessage_input_onclick_Some:
  assumes "addFormMessage_input_onclick v = Some t"
  shows "t = trim v" and "t \<noteq> []"
  using assms by (auto simp add: addFormMessage_input_onclick_def split: if_splits)

lemma update_fresh:
  assumes "k \<notin> fst ` set al"
  shows "AList.update k v al = al @ [(k, v)]"
  using assms by (induction al) auto

lemma collect_step_simps:
  "collect_step (b, data) (n, CheckboxGroup boxes) =
     (b \<and> map fst (filter snd boxes) \<noteq> [], AList.update n (JArray (map fst (filter snd boxes))) data)"
  "collect_step (b, data) (n, Select choices v) =
     (if trim v = [] then (False, data) else (b, AList.update n (JString (trim v)) data))"
  "collect_step (b, data) (n, Input v) =
     (if trim v = [] then (False, data) else (b, AList.update n (JString (trim v)) data))"
  by (simp_all add: collect_step_def Let_def)

lemma collect_foldl:
  assumes "distinct (map fst inputs)" and "fst ` set inputs \<inter> fst ` set data = {}"
    and "foldl collect_step (b, data) inputs = (True, data')"
  shows "b \<and> data' = data @ map (\<lambda>(n, el). (n, case el of
                CheckboxGroup boxes \<Rightarrow> JArray (map fst (filter snd boxes))
              | Select choices v \<Rightarrow> JString (trim v)
              | Input v \<Rightarrow> JString (trim v))) inputs"
  using assms
proof (induction inputs arbitrary: b data)
  case Nil
  then show ?case by simp
next
  case (Cons i inputs)
  obtain n el where i: "i = (n, el)" by (cases i)
  have fresh: "n \<notin> fst ` set data" using Cons.prems(2) i by auto
  have d: "distinct (map fst inputs)" and nin: "n \<notin> fst ` set inputs"
    using Cons.prems(1) i by auto
  have disj0: "fst ` set inputs \<inter> fst ` set data = {}" using Cons.prems(2) by auto
  have disj: "fst ` set inputs \<inter> fst ` set (data @ [(n, x)]) = {}" for x
    using Cons.prems(2) nin i by auto
  show ?case
  proof (cases el)
    case (CheckboxGroup boxes)
    from Cons.prems(3)
    have "foldl collect_step (b \<and> map fst (filter snd boxes) \<noteq> [],
             data @ [(n, JArray (map fst (filter snd boxes)))]) inputs = (True, data')"
      by (simp add: i CheckboxGroup collect_step_simps update_fresh[OF fresh])
    from Cons.IH[OF d disj this] show ?thesis by (simp add: i CheckboxGroup)
  next
    case (Select choices v)
    show ?thesis
    proof (cases "trim v = []")
      case True
      with Cons.prems(3) have "foldl collect_step (False, data) inputs = (True, data')"
        by (simp add: i Select collect_step_simps)
      from Cons.IH[OF d disj0 this] show ?thesis by simp
    next
      case False
      with Cons.prems(3)
      have "foldl collect_step (b, data @ [(n, JString (trim v))]) inputs = (True, data')"
        by (simp add: i Select collect_step_simps update_fresh[OF fresh])
      from Cons.IH[OF d disj this] show ?thesis by (simp add: i Select)
    qed
  next
    case (Input v)
    show ?thesis
    proof (cases "trim v = []")
      case True
      with Cons.prems(3) have "foldl collect_step (False, data) inputs = (True, data')"
        by (simp add: i Input collect_step_simps)
      from Cons.IH[OF d disj0 this] show ?thesis by simp
    next
      case False
      with Cons.prems(3)
      have "foldl collect_step (b, data @ [(n, JString (trim v))]) inputs = (True, data')"
        by (simp add: i Input collect_step_simps update_fresh[OF fresh])
      from Cons.IH[OF d disj this] show ?thesis by (simp add: i Input)
    qed
  qed
qed

lemma addMultiFieldForm_onclick_Some:
  assumes "distinct (map fst inputs)" and "addMultiFieldForm_onclick inputs = Some t"
  shows "t = JSON_stringify (map (\<lambda>(n, el). (n, case el of
                CheckboxGroup boxes \<Rightarrow> JArray (map fst (filter snd boxes))
              | Select choices v \<Rightarrow> JString (trim v)
              | Input v \<Rightarrow> JString (trim v))) inputs)"
proof -
  obtain b data where c: "collect inputs = (b, data)" by (cases "collect inputs")
  with assms(2) have b: "b" and t: "t = JSON_stringify data"
    by (auto simp add: addMultiFieldForm_onclick_def split: if_splits)
  from c b have "foldl collect_step (True, []) inputs = (True, data)"
    by (simp add: collect_def)
  from collect_foldl[OF assms(1) _ this] t show ?thesis by simp
qed

lemma assign_input_distinct:
  assumes "assign_input page (b, acc) f = Inr (b', inputs)" and "distinct (map fst acc)"
  shows "distinct (map fst inputs)"
  using assms
  by (auto simp add: assign_input_def distinct_update split: sum.splits if_splits Assignment.splits)

lemma fill_inputs_distinct:
  assumes "fill_inputs page (b, acc) fs = Inr (b', inputs)" and "distinct (map fst acc)"
  shows "distinct (map fst inputs)"
  using assms
proof (induction fs arbitrary: b acc)
  case Nil
  then show ?case by simp
next
  case (Cons f fs)
  from Cons.prems(1) obtain b1 acc1 where 1: "assign_input page (b, acc) f = Inr (b1, acc1)"
    and 2: "fill_inputs page (b1, acc1) fs = Inr (b', inputs)"
    by (auto split: sum.splits)
  from 1 Cons.prems(2) have "distinct (map fst acc1)" by (rule assign_input_distinct)
  with 2 show ?case by (rule Cons.IH)
qed

text \<open>
  Claim C2: a multi-field form sends a JSON object keyed by field name in which every
  field that is not a check-box group maps to its trimmed string value. The script
  client does so; the profile form of the React client checks that every trimmed value
  is non-empty and then submits the values as typed. On a response that asks for the
  single text field \<^verbatim>\<open>zip_code\<close>, the React client renders the profile form; with
  \<^verbatim>\<open>" 27701 "\<close> typed into it, the profile form and \<^verbatim>\<open>submitForm\<close> post the
  value with its blanks, where the script client, on the same response and the same
  input, posts \<^verbatim>\<open>"27701"\<close>.
\<close>

theorem ProfileForm_submits_untrimmed:
  "renderForm (snd (sendMessage ''yes'' (Some profile_response) established))
     = Some (RenderProfileForm [zip_field])
   \<and> ProfileForm_handleSubmit [zip_field] (ProfileForm_handleChange ''zip_code'' '' 27701 '' [])
     = Inr (Some [(''zip_code'', JString '' 27701 '')])
   \<and> fst (submitForm [(''zip_code'', JString '' 27701 '')] None
            (snd (sendMessage ''yes'' (Some profile_response) established)))
     = Some (POST_chat \<lparr>ChatRequest.session_id = ''s1'',
                         ChatRequest.message = JSON_stringify [(''zip_code'', JString '' 27701 '')]\<rparr>)
   \<and> trim '' 27701 '' = ''27701''
   \<and> renderResponse page profile_response initialClient
     = Inr (initialClient\<lparr>chat_messages :=
              [MultiFieldBubble ''Where do you live?'' [(''zip_code'', Input [])]]\<rparr>)
   \<and> addMultiFieldForm_onclick [(''zip_code'', Input '' 27701 '')]
     = Some (JSON_stringify [(''zip_code'', JString ''27701'')])"
  by (simp add: zip_field_def profile_response_def ProfileForm_handleSubmit_def
      ProfileForm_handleChange_def trim_def isWhiteSpace_def submitForm_def submitForm_start_def
      sendMessage_def sendMessage_start_def sendMessage_finish_def established_def
      initSession_def initSession_start_def initSession_finish_def handleResponse_def
      addMessage_def initialState_def greeting_response_def truthy_def sendChatMessage_def
      createSession_def displayMessage_def createFieldInput_def FIELD_OPTIONS_def
      renderForm_def startsWith_def renderResponse_def addMultiFieldForm_def initialClient_def
      addMultiFieldForm_onclick_def collect_def collect_step_def Let_def
      filled_def property_def Object_prototype_def assign_input_def)


section \<open>The current step\<close>

text \<open>
  Claim C3, as stated: after every turn the current step, the \<^verbatim>\<open>step\<close> member of the
  response, is one of the eleven node identifiers of the catalog. The client stores the
  step of the response unchanged and selects its PIN input on the step
  \<^verbatim>\<open>awaiting_pin\<close>, which is not in the catalog.
\<close>

theorem current_step_not_catalog_counterexample:
  "currentStep (snd (submitForm [(''email'', JString ''a@b.org''), (''phone'', JString ''919-555-0100'')]
                      (Some pin_response) established)) = ''awaiting_pin''
   \<and> ''awaiting_pin'' \<notin> set [''greeting'', ''consent'', ''identity_collection'', ''lead_lookup'',
         ''create_lead'', ''pin_auth'', ''profile_collection'', ''prescreen'', ''eligibility'',
         ''scheduling'', ''handoff'']
   \<and> renderForm (snd (submitForm [(''email'', JString ''a@b.org''), (''phone'', JString ''919-555-0100'')]
                      (Some pin_response) established)) = Some RenderPinInput"
  by (simp add: established_def initSession_def initSession_start_def initSession_finish_def
      greeting_response_def pin_response_def initialState_def handleResponse_def addMessage_def
      submitForm_def submitForm_start_def submitForm_finish_def truthy_def renderForm_def
      sendChatMessage_def createSession_def Let_def)

text \<open>
  Claim C3, amended: after every turn, and after the bootstrap, the client's current
  step is the \<^verbatim>\<open>step\<close> member of the response, whatever string that is.
\<close>

theorem current_step_is_response_step:
  "currentStep (handleResponse r st) = step r
   \<and> currentStep (initSession_finish (Some r) st) = step r
   \<and> currentStep (sendMessage_finish (Some r) st) = step r
   \<and> currentStep (submitForm_finish (Some r) st) = step r"
  by (simp add: handleResponse_def addMessage_def Let_def initSession_finish_def
      sendMessage_finish_def submitForm_finish_def)


theorem current_step_is_response_step_witness:
  "currentStep (sendMessage_finish (Some pin_response) established) = ''awaiting_pin''
   \<and> currentStep (initSession_finish (Some (greeting_response ''s1'')) initialState) = ''greeting''"
  using current_step_is_response_step [where r = pin_response and st = established]
    current_step_is_response_step [where r = "greeting_response ''s1''" and st = initialState]
  by (simp add: pin_response_def greeting_response_def)


section \<open>Eligibility outcome\<close>

lemma rule_verdict_None_iff:
  "rule_verdict h p a r = None \<longleftrightarrow> field_value p a (rule_field r) = None"
  by (simp add: rule_verdict_def)

lemma missing_fields_Nil_iff:
  "missing_fields p a rules = [] \<longleftrightarrow> (\<forall>r\<in>set rules. rule_verdict h p a r \<noteq> None)"
  by (simp add: missing_fields_def rule_verdict_None_iff filter_empty_conv)

lemma evaluate_Eligible_iff:
  "evaluate h p a rules = Eligible \<longleftrightarrow>
     (\<forall>r\<in>set rules. effect r = Include_required \<longrightarrow> rule_verdict h p a r = Some True)
     \<and> (\<forall>r\<in>set rules. effect r = Exclude_if_matched \<longrightarrow> rule_verdict h p a r = Some False)"
proof -
  have "evaluate h p a rules = Eligible \<longleftrightarrow>
      missing_fields p a rules = [] \<and> find (excluded_by h p a) rules = None
      \<and> find (unsatisfied h p a) rules = None"
    by (simp add: evaluate_def split: option.split)
  also have "\<dots> \<longleftrightarrow> (\<forall>r\<in>set rules. rule_verdict h p a r \<noteq> None
      \<and> \<not> excluded_by h p a r \<and> \<not> unsatisfied h p a r)"
    by (auto simp add: missing_fields_Nil_iff[of p a rules h] find_None_iff)
  also have "\<dots> \<longleftrightarrow>
     (\<forall>r\<in>set rules. effect r = Include_required \<longrightarrow> rule_verdict h p a r = Some True)
     \<and> (\<forall>r\<in>set rules. effect r = Exclude_if_matched \<longrightarrow> rule_verdict h p a r = Some False)"
  proof -
    have "rule_verdict h p a r \<noteq> None \<and> \<not> excluded_by h p a r \<and> \<not> unsatisfied h p a r \<longleftrightarrow>
       (effect r = Include_required \<longrightarrow> rule_verdict h p a r = Some True)
       \<and> (effect r = Exclude_if_matched \<longrightarrow> rule_verdict h p a r = Some False)" for r
      by (cases "effect r"; cases "rule_verdict h p a r") (auto simp add: excluded_by_def unsatisfied_def)
    then show ?thesis by blast
  qed
  finally show ?thesis .
qed

lemma evaluate_missing:
  assumes "r \<in> set rules" and "field_value p a (rule_field r) = None"
  shows "evaluate h p a rules = Undetermined (missing_fields p a rules)"
    and "rule_field r \<in> set (missing_fields p a rules)"
proof -
  show m: "rule_field r \<in> set (missing_fields p a rules)"
    using assms by (force simp add: missing_fields_def)
  then have "missing_fields p a rules \<noteq> []" by auto
  then show "evaluate h p a rules = Undetermined (missing_fields p a rules)"
    by (simp add: evaluate_def)
qed

lemma find_first:
  assumes "P x" and "\<forall>y\<in>set pre. \<not> P y"
  shows "find P (pre @ x # post) = Some x"
  using assms by (induction pre) auto

lemma evaluate_first_exclude:
  assumes "rules = pre @ r # post"
    and "excluded_by h p a r" and "\<forall>q\<in>set pre. \<not> excluded_by h p a q"
    and "evaluate h p a rules = Ineligible c"
  shows "c = reason_code r"
proof -
  have "find (excluded_by h p a) rules = Some r"
    unfolding assms(1) using assms(2,3) by (rule find_first)
  with assms(4) show ?thesis
    by (simp add: evaluate_def split: if_splits)
qed

text \<open>
  Claim C4. For every profile, pre-screen answers and ordered rule list: the outcome is
  eligible iff every include-required rule is satisfied and no exclude-if-matched rule
  matches. This is shown twice: with "satisfied" and "does not match" as verdicts of a
  rule whose field is present, for all inputs; and with "no exclude rule matches" as
  the plain negation, for the inputs in which no rule refers to an absent field. A rule
  of the list whose field is absent has no verdict and makes the outcome undetermined,
  naming the field, never ineligible. When an exclude rule matches, an ineligible
  outcome carries the reason code of the first matching exclude rule in declared
  order. Equal inputs give equal outcomes.
\<close>

theorem eligibility_outcome:
  "(evaluate h p a rules = Eligible \<longleftrightarrow>
      (\<forall>r\<in>set rules. effect r = Include_required \<longrightarrow> rule_verdict h p a r = Some True)
      \<and> (\<forall>r\<in>set rules. effect r = Exclude_if_matched \<longrightarrow> rule_verdict h p a r = Some False))
   \<and> (missing_fields p a rules = [] \<longrightarrow>
        (evaluate h p a rules = Eligible \<longleftrightarrow>
           (\<forall>r\<in>set rules. effect r = Include_required \<longrightarrow> rule_verdict h p a r = Some True)
           \<and> \<not> (\<exists>r\<in>set rules. effect r = Exclude_if_matched \<and> rule_verdict h p a r = Some True)))
   \<and> (r \<in> set rules \<and> field_value p a (rule_field r) = None \<longrightarrow>
        rule_verdict h p a r = None
        \<and> (\<exists>fs. evaluate h p a rules = Undetermined fs \<and> rule_field r \<in> set fs))
   \<and> (rules = pre @ r # post
        \<and> effect r = Exclude_if_matched \<and> rule_verdict h p a r = Some True
        \<and> (\<forall>q\<in>set pre. \<not> (effect q = Exclude_if_matched \<and> rule_verdict h p a q = Some True))
        \<and> evaluate h p a rules = Ineligible c \<longrightarrow> c = reason_code r)
   \<and> (p = p' \<and> a = a' \<and> rules = rules' \<longrightarrow> evaluate h p a rules = evaluate h p' a' rules')"
proof -
  have b: "rule_verdict h p a r = None
        \<and> (\<exists>fs. evaluate h p a rules = Undetermined fs \<and> rule_field r \<in> set fs)"
    if "r \<in> set rules \<and> field_value p a (rule_field r) = None"
  proof -
    from that have 1: "r \<in> set rules" and 2: "field_value p a (rule_field r) = None"
      by simp_all
    from evaluate_missing(1)[OF 1 2] evaluate_missing(2)[OF 1 2] 2
    show ?thesis by (simp add: rule_verdict_None_iff)
  qed
  have c: "c = reason_code r"
    if "rules = pre @ r # post
        \<and> effect r = Exclude_if_matched \<and> rule_verdict h p a r = Some True
        \<and> (\<forall>q\<in>set pre. \<not> (effect q = Exclude_if_matched \<and> rule_verdict h p a q = Some True))
        \<and> evaluate h p a rules = Ineligible c"
  proof -
    from that have 1: "rules = pre @ r # post"
      and 4: "evaluate h p a rules = Ineligible c"
      by blast+
    from that have 2: "excluded_by h p a r"
      and 3: "\<forall>q\<in>set pre. \<not> excluded_by h p a q"
      unfolding excluded_by_def by blast+
    from 1 2 3 4 show ?thesis by (rule evaluate_first_exclude)
  qed
  have a2: "evaluate h p a rules = Eligible \<longleftrightarrow>
           (\<forall>r\<in>set rules. effect r = Include_required \<longrightarrow> rule_verdict h p a r = Some True)
           \<and> \<not> (\<exists>r\<in>set rules. effect r = Exclude_if_matched \<and> rule_verdict h p a r = Some True)"
    if "missing_fields p a rules = []"
  proof -
    from that have present: "\<forall>r\<in>set rules. rule_verdict h p a r \<noteq> None"
      by (simp add: missing_fields_Nil_iff[of p a rules h])
    have "(rule_verdict h p a r = Some False) = (rule_verdict h p a r \<noteq> Some True)"
      if "r \<in> set rules" for r
      using present that by (cases "rule_verdict h p a r") auto
    then have "(\<forall>r\<in>set rules. effect r = Exclude_if_matched \<longrightarrow> rule_verdict h p a r = Some False)
        = (\<not> (\<exists>r\<in>set rules. effect r = Exclude_if_matched \<and> rule_verdict h p a r = Some True))"
      by blast
    with evaluate_Eligible_iff[of h p a rules] show ?thesis by simp
  qed
  from evaluate_Eligible_iff[of h p a rules] a2 b c show ?thesis by blast
qed

theorem eligibility_outcome_witness:
  "missing_fields [''age'' \<mapsto> 30, ''cigarettes_per_day'' \<mapsto> 5] [(''uses_nicotine'', 1)] zyn_rules = []
   \<and> evaluate holds_int [''age'' \<mapsto> 30, ''cigarettes_per_day'' \<mapsto> 5] [(''uses_nicotine'', 1)] zyn_rules
     = Eligible
   \<and> zyn_rules ! 2 \<in> set zyn_rules
   \<and> field_value [''age'' \<mapsto> 19] [(''uses_nicotine'', 1)] (rule_field (zyn_rules ! 2)) = None
   \<and> evaluate holds_int [''age'' \<mapsto> 19] [(''uses_nicotine'', 1)] zyn_rules
     = Undetermined [''cigarettes_per_day'']
   \<and> zyn_rules = [zyn_rules ! 0] @ zyn_rules ! 1 # [zyn_rules ! 2]
   \<and> effect (zyn_rules ! 1) = Exclude_if_matched
   \<and> rule_verdict holds_int [''age'' \<mapsto> 19, ''cigarettes_per_day'' \<mapsto> 50] [(''uses_nicotine'', 1)]
        (zyn_rules ! 1) = Some True
   \<and> evaluate holds_int [''age'' \<mapsto> 19, ''cigarettes_per_day'' \<mapsto> 50] [(''uses_nicotine'', 1)] zyn_rules
     = Ineligible ''under_minimum_age''
   \<and> reason_code (zyn_rules ! 1) = ''under_minimum_age''"
  using eligibility_outcome [where h = holds_int and rules = zyn_rules
      and p = "[''age'' \<mapsto> 30, ''cigarettes_per_day'' \<mapsto> 5]" and a = "[(''uses_nicotine'', 1)]"]
    eligibility_outcome [where h = holds_int and rules = zyn_rules and r = "zyn_rules ! 2"
      and p = "[''age'' \<mapsto> 19]" and a = "[(''uses_nicotine'', 1)]"]
    eligibility_outcome [where h = holds_int and rules = zyn_rules and r = "zyn_rules ! 1"
      and pre = "[zyn_rules ! 0]" and post = "[zyn_rules ! 2]" and c = "''under_minimum_age''"
      and p = "[''age'' \<mapsto> 19, ''cigarettes_per_day'' \<mapsto> 50]" and a = "[(''uses_nicotine'', 1)]"]
  by (simp add: zyn_rules_def evaluate_def missing_fields_def field_value_def rule_verdict_def
      excluded_by_def unsatisfied_def)



section \<open>The scheduling form\<close>

text \<open>
  For field names that are not members of \<^verbatim>\<open>Object.prototype\<close> the form keeps its
  selections in order: no click throws, every selection is a list without duplicates of
  declared options, and a payload is handed on only when every field has a selection.
\<close>

lemma property_not_inherited:
  assumes "n \<notin> set Object_prototype"
  shows "property obj n = (case map_of obj n of Some v \<Rightarrow> Own v | None \<Rightarrow> Undefined)"
  using assms by (simp add: property_def)

lemma selection_of_update:
  "selection_of (AList.update k v sel) n = (if n = k then v else selection_of sel n)"
  by (simp add: selection_of_def update_conv')

lemma sel_ok_empty: "sel_ok cbs []"
  by (simp add: sel_ok_def selection_of_def)

lemma sel_ok_handleToggle:
  assumes "sel_ok cbs sel" and "(k, x) \<in> set cbs" and "k \<notin> set Object_prototype"
  shows "\<exists>sel'. handleToggle k x sel = Inr sel' \<and> sel_ok cbs sel'"
proof (cases "map_of sel k")
  case None
  then have "handleToggle k x sel = Inr (AList.update k [x] sel)"
    by (simp add: handleToggle_def property_not_inherited[OF assms(3)])
  moreover have "sel_ok cbs (AList.update k [x] sel)"
    using assms(1,2) by (auto simp add: sel_ok_def selection_of_update)
  ultimately show ?thesis by blast
next
  case (Some current)
  then have cur: "selection_of sel k = current" by (simp add: selection_of_def)
  have d: "distinct current" and m: "\<forall>y\<in>set current. (k, y) \<in> set cbs"
    using assms(1) cur unfolding sel_ok_def by blast+
  show ?thesis
  proof (cases "x \<in> set current")
    case True
    then have "handleToggle k x sel = Inr (AList.update k (filter (\<lambda>o'. o' \<noteq> x) current) sel)"
      by (simp add: handleToggle_def property_not_inherited[OF assms(3)] Some)
    moreover have "sel_ok cbs (AList.update k (filter (\<lambda>o'. o' \<noteq> x) current) sel)"
      using assms(1) d m by (auto simp add: sel_ok_def selection_of_update)
    ultimately show ?thesis by blast
  next
    case False
    then have "handleToggle k x sel = Inr (AList.update k (current @ [x]) sel)"
      by (simp add: handleToggle_def property_not_inherited[OF assms(3)] Some)
    moreover have "sel_ok cbs (AList.update k (current @ [x]) sel)"
      using assms(1,2) d m False by (auto simp add: sel_ok_def selection_of_update)
    ultimately show ?thesis by blast
  qed
qed

lemma sel_ok_toggles:
  assumes "set clicks \<subseteq> set cbs" and "\<forall>c\<in>set clicks. fst c \<notin> set Object_prototype"
    and "sel_ok cbs sel"
  shows "\<exists>sel'. toggles clicks sel = Inr sel' \<and> sel_ok cbs sel'"
  using assms
proof (induction clicks arbitrary: sel)
  case Nil
  then show ?case by simp
next
  case (Cons c clicks)
  obtain k x where c: "c = (k, x)" by (cases c)
  have "(k, x) \<in> set cbs" and "k \<notin> set Object_prototype"
    using Cons.prems(1,2) c by auto
  with Cons.prems(3) obtain sel1 where 1: "handleToggle k x sel = Inr sel1" and 2: "sel_ok cbs sel1"
    using sel_ok_handleToggle by blast
  have "\<exists>sel'. toggles clicks sel1 = Inr sel' \<and> sel_ok cbs sel'"
    using Cons.IH[OF _ _ 2] Cons.prems(1,2) by simp
  then show ?case by (simp add: c 1)
qed

lemma checkboxes_iff:
  "(n, x) \<in> set (checkboxes fs) \<longleftrightarrow>
     (\<exists>f\<in>set fs. name f = n \<and> (\<exists>os. FieldDescriptor.options f = Some os \<and> x \<in> set os))"
proof
  assume "(n, x) \<in> set (checkboxes fs)"
  then obtain f where f: "f \<in> set fs"
    and m: "(n, x) \<in> set (case FieldDescriptor.options f of None \<Rightarrow> []
                               | Some os \<Rightarrow> map (\<lambda>option. (name f, option)) os)"
    by (auto simp add: checkboxes_def)
  from m obtain os where "FieldDescriptor.options f = Some os" "n = name f" "x \<in> set os"
    by (cases "FieldDescriptor.options f") auto
  with f show "\<exists>f\<in>set fs. name f = n \<and> (\<exists>os. FieldDescriptor.options f = Some os \<and> x \<in> set os)"
    by blast
next
  assume "\<exists>f\<in>set fs. name f = n \<and> (\<exists>os. FieldDescriptor.options f = Some os \<and> x \<in> set os)"
  then obtain f os where "f \<in> set fs" "name f = n" "FieldDescriptor.options f = Some os" "x \<in> set os"
    by blast
  then show "(n, x) \<in> set (checkboxes fs)"
    by (force simp add: checkboxes_def)
qed

lemma has_selection_own:
  assumes "n \<notin> set Object_prototype"
  shows "has_selection sel n \<longleftrightarrow> selection_of sel n \<noteq> []"
  by (simp add: has_selection_def selection_of_def property_not_inherited[OF assms]
      split: option.split)

lemma SchedulingForm_handleSubmit_Some:
  assumes "SchedulingForm_handleSubmit fs sel = Some payload"
  shows "\<forall>f\<in>set fs. has_selection sel (name f)"
    and "payload = map (\<lambda>(k, v). (k, JArray v)) sel"
  using assms
  by (auto simp add: SchedulingForm_handleSubmit_def Let_def list_all_iff split: if_splits)

lemma SchedulingForm_own_names:
  assumes "\<forall>f\<in>set fs. name f \<notin> set Object_prototype"
    and "set clicks \<subseteq> set (checkboxes fs)"
  shows "\<exists>sel. toggles clicks [] = Inr sel
          \<and> (\<forall>n. distinct (selection_of sel n)
                \<and> (\<forall>x\<in>set (selection_of sel n).
                      \<exists>f\<in>set fs. name f = n
                        \<and> (\<exists>os. FieldDescriptor.options f = Some os \<and> x \<in> set os)))"
    and "SchedulingForm_handleSubmit fs sel' = Some payload \<Longrightarrow>
           (\<forall>f\<in>set fs. selection_of sel' (name f) \<noteq> [])
           \<and> payload = map (\<lambda>(k, v). (k, JArray v)) sel'"
proof -
  have "\<forall>c\<in>set clicks. fst c \<notin> set Object_prototype"
  proof
    fix c assume "c \<in> set clicks"
    then have "(fst c, snd c) \<in> set (checkboxes fs)" using assms(2) by auto
    then obtain f where "f \<in> set fs" "name f = fst c" unfolding checkboxes_iff by blast
    with assms(1) show "fst c \<notin> set Object_prototype" by auto
  qed
  with assms(2) sel_ok_empty obtain sel where "toggles clicks [] = Inr sel"
    and "sel_ok (checkboxes fs) sel"
    using sel_ok_toggles by blast
  then show "\<exists>sel. toggles clicks [] = Inr sel
          \<and> (\<forall>n. distinct (selection_of sel n)
                \<and> (\<forall>x\<in>set (selection_of sel n).
                      \<exists>f\<in>set fs. name f = n
                        \<and> (\<exists>os. FieldDescriptor.options f = Some os \<and> x \<in> set os)))"
    unfolding sel_ok_def checkboxes_iff by blast
next
  assume s: "SchedulingForm_handleSubmit fs sel' = Some payload"
  from SchedulingForm_handleSubmit_Some[OF s] assms(1)
  show "(\<forall>f\<in>set fs. selection_of sel' (name f) \<noteq> [])
           \<and> payload = map (\<lambda>(k, v). (k, JArray v)) sel'"
    by (auto simp add: has_selection_own)
qed

lemma SchedulingForm_own_names_example:
  "toggles [(''days'', ''Mon''), (''times'', ''PM''), (''days'', ''Wed''), (''days'', ''Mon'')] []
     = Inr [(''days'', [''Wed'']), (''times'', [''PM''])]
   \<and> SchedulingForm_render scheduling_fields [(''days'', [''Wed'']), (''times'', [''PM''])]
     = Inr [(''days'', ''Mon'', False), (''days'', ''Tue'', False), (''days'', ''Wed'', True),
            (''times'', ''AM'', False), (''times'', ''PM'', True)]
   \<and> SchedulingForm_handleSubmit scheduling_fields [(''days'', [''Wed'']), (''times'', [''PM''])]
     = Some [(''days'', JArray [''Wed'']), (''times'', JArray [''PM''])]
   \<and> SchedulingForm_handleSubmit scheduling_fields [(''days'', [''Wed''])] = None
   \<and> renderForm (sendMessage_finish (Some scheduling_response) established)
     = Some (RenderSchedulingForm scheduling_fields)"
  by (simp add: scheduling_response_def scheduling_fields_def handleToggle_def property_def
      Object_prototype_def SchedulingForm_handleSubmit_def has_selection_def render_field_def
      renderForm_def sendMessage_finish_def handleResponse_def addMessage_def Let_def)

text \<open>
  Claim C5: on a scheduling response the client renders the scheduling form, keeps under
  every field name a list without duplicates of declared options, and submits the
  payload only when the selection of every field is non-empty. The form's own comment
  says the same of its check. The check reads \<^verbatim>\<open>selections[field.name] || []\<close> on a
  plain object: for a field named \<^verbatim>\<open>constructor\<close> this is the function
  \<^verbatim>\<open>Object\<close>, of length 1. On a scheduling response whose one field has this name
  and declares no options, the form is rendered without a check box, nothing can be
  selected, and \<^verbatim>\<open>handleSubmit\<close> hands the empty selection state to
  \<^verbatim>\<open>onSubmit\<close>, which posts it; a toggle under that name would throw.
\<close>

theorem SchedulingForm_submits_nothing_selected:
  "renderForm (snd (sendMessage ''Yes'' (Some constructor_response) established))
     = Some (RenderSchedulingForm [constructor_field])
   \<and> SchedulingForm_render [constructor_field] [] = Inr []
   \<and> checkboxes [constructor_field] = []
   \<and> property ([] :: (string \<times> string list) list) ''constructor'' = Inherited ''constructor''
   \<and> SchedulingForm_handleSubmit [constructor_field] [] = Some []
   \<and> fst (submitForm [] None (snd (sendMessage ''Yes'' (Some constructor_response) established)))
     = Some (POST_chat \<lparr>ChatRequest.session_id = ''s1'', ChatRequest.message = JSON_stringify []\<rparr>)
   \<and> handleToggle ''constructor'' ''Mon'' [] = Inl TypeError"
  by (simp add: constructor_response_def constructor_field_def checkboxes_def render_field_def
      property_def Object_prototype_def member_length_def has_selection_def
      SchedulingForm_handleSubmit_def handleToggle_def renderForm_def
      sendMessage_def sendMessage_start_def sendMessage_finish_def submitForm_def
      submitForm_start_def established_def initSession_def initSession_start_def
      initSession_finish_def handleResponse_def addMessage_def initialState_def
      greeting_response_def truthy_def sendChatMessage_def createSession_def
      displayMessage_def Let_def)


section \<open>The session table\<close>

text \<open>
  Claim C6. The session table has exactly the columns \<^verbatim>\<open>session_id\<close>,
  \<^verbatim>\<open>study_id\<close>, \<^verbatim>\<open>state\<close>, \<^verbatim>\<open>created_at\<close> and \<^verbatim>\<open>updated_at\<close>;
  \<^verbatim>\<open>session_id\<close> is the primary key and no column is nullable; the state is a JSON
  document; there is no further column, so none for a version token, and a save is not
  checked against an earlier one: after a save, and after a second save over it, a load
  returns the document written last.
\<close>

theorem rrc_sessions_schema:
  "map column_name rrc_sessions
     = [''session_id'', ''study_id'', ''state'', ''created_at'', ''updated_at'']
   \<and> map column_name (filter primary_key rrc_sessions) = [''session_id'']
   \<and> map column_name (filter not_null rrc_sessions)
     = [''study_id'', ''state'', ''created_at'', ''updated_at'']
   \<and> list_all (\<lambda>c. primary_key c \<or> not_null c) rrc_sessions
   \<and> map data_type rrc_sessions = [VARCHAR 36, VARCHAR 40, JSONB, TIMESTAMPTZ, TIMESTAMPTZ]
   \<and> load sid (save sid study doc t db) = Some doc
   \<and> load sid (save sid study' doc' t' (save sid study doc t db)) = Some doc'"
  by (simp add: rrc_sessions_def load_def save_def split: option.split)

theorem rrc_sessions_schema_witness:
  "load ''s1'' (save ''s1'' ''zyn'' (2::nat) 20 (save ''s1'' ''zyn'' 1 10 Map.empty)) = Some 2
   \<and> map_option row_created_at
        ((save ''s1'' ''zyn'' (2::nat) 20 (save ''s1'' ''zyn'' 1 10 Map.empty)) ''s1'') = Some 10
   \<and> map_option row_updated_at
        ((save ''s1'' ''zyn'' (2::nat) 20 (save ''s1'' ''zyn'' 1 10 Map.empty)) ''s1'') = Some 20
   \<and> length rrc_sessions = 5"
  using rrc_sessions_schema [where sid = "''s1''" and study = "''zyn''" and study' = "''zyn''"
      and doc = "1::nat" and doc' = "2::nat" and t = 10 and t' = 20 and db = Map.empty]
  by (simp add: save_def rrc_sessions_def)


section \<open>The session bootstrap\<close>

text \<open>
  Claim C7. Every bootstrap request of either client posts a body with the single
  member \<^verbatim>\<open>study_id\<close>, the constant \<^verbatim>\<open>"zyn"\<close>; and the bootstrap response is
  consumed by the handler that consumes the turn responses: \<^verbatim>\<open>handleResponse\<close> in
  the hook, \<^verbatim>\<open>renderResponse\<close> in the script client, where an exception of the
  handler ends in the \<^verbatim>\<open>catch\<close> of the caller.
\<close>

theorem bootstrap_request_and_handler:
  fixes q q' :: SessionRequest
  shows "fst (initSession reply st) = POST_session \<lparr>study_id = ''zyn''\<rparr>
   \<and> fst (startSession page reply c) = POST_session \<lparr>study_id = ''zyn''\<rparr>
   \<and> (q = q') = (study_id q = study_id q')
   \<and> snd (initSession (Some r) st) = (handleResponse r (st\<lparr>isLoading := True\<rparr>))\<lparr>isLoading := False\<rparr>
   \<and> sendMessage_finish (Some r) st = (handleResponse r st)\<lparr>isLoading := False\<rparr>
   \<and> submitForm_finish (Some r) st = (handleResponse r st)\<lparr>isLoading := False\<rparr>
   \<and> snd (startSession page (Some r) c)
       = (case renderResponse page r (c\<lparr>Client.sessionId := Some (ChatResponse.session_id r)\<rparr>) of
            Inr c' \<Rightarrow> c'
          | Inl e \<Rightarrow> addMessage_js Assistant
              (Plain ''Unable to connect to the server. Please try again later.'')
              (c\<lparr>Client.sessionId := Some (ChatResponse.session_id r)\<rparr>))
   \<and> sendMessage_js_finish page (Some r) c
       = (case renderResponse page r (c\<lparr>typing := False\<rparr>) of
            Inr c' \<Rightarrow> c'
          | Inl e \<Rightarrow> (addMessage_js Assistant (Plain ''Something went wrong. Please try again.'')
                        (c\<lparr>typing := False\<rparr>))\<lparr>inputEnabled := True\<rparr>)"
proof -
  have "(q = q') = (study_id q = study_id q')" by (cases q, cases q') auto
  then show ?thesis
    by (simp add: initSession_def initSession_start_def initSession_finish_def createSession_def
        STUDY_ID_def startSession_def startSession_start_def startSession_finish_def
        sendMessage_finish_def submitForm_finish_def sendMessage_js_finish_def)
qed

theorem bootstrap_request_and_handler_witness:
  "fst (initSession (Some (greeting_response ''s1'')) initialState) = POST_session \<lparr>study_id = ''zyn''\<rparr>
   \<and> fst (startSession plain_page (Some (greeting_response ''s1'')) initialClient)
       = POST_session \<lparr>study_id = ''zyn''\<rparr>
   \<and> currentStep established = ''greeting''
   \<and> ChatState.sessionId established = Some ''s1''
   \<and> Client.sessionId established_js = Some ''s1''
   \<and> renderResponse plain_page (greeting_response ''s1'') (initialClient\<lparr>Client.sessionId := Some ''s1''\<rparr>)
       = Inr established_js"
  using bootstrap_request_and_handler [where reply = "Some (greeting_response ''s1'')"
      and r = "greeting_response ''s1''" and st = initialState and c = initialClient
      and page = plain_page]
  by (simp add: established_def established_js_def handleResponse_def addMessage_def
      greeting_response_def renderResponse_def addMessage_js_def initialClient_def Let_def
      truthy_def)


section \<open>When a turn request is issued\<close>

lemma sendMessage_js_start_iff:
  "(fst (sendMessage_js_start t c) \<noteq> None) =
     (truthy (Client.sessionId c) \<and> \<not> conversationDone c \<and> \<not> blank t)"
  by (simp add: sendMessage_js_start_def)

lemma conversationDone_addMultiFieldForm:
  "addMultiFieldForm page t fs c = Inr c' \<Longrightarrow> conversationDone c' = conversationDone c"
  by (auto simp add: addMultiFieldForm_def split: sum.splits prod.splits if_splits)

lemma conversationDone_renderResponse:
  assumes "renderResponse page data c = Inr c'"
  shows "conversationDone c' = (conversationDone c \<or> done data)"
proof (cases "ChatResponse.type data = Form \<and> ChatResponse.fields' data \<noteq> None
            \<and> length (the (ChatResponse.fields' data)) > 0")
  case True
  with assms obtain c1 where
    1: "addMultiFieldForm page (ChatResponse.message data) (the (ChatResponse.fields' data)) c = Inr c1"
    and 2: "c' = (if done data
               then c1\<lparr>conversationDone := True, chat_ended := True, inputEnabled := False\<rparr>
               else c1\<lparr>inputEnabled := True\<rparr>)"
    by (auto simp add: renderResponse_def split: sum.splits)
  from conversationDone_addMultiFieldForm[OF 1] 2 show ?thesis by auto
next
  case False
  with assms show ?thesis
    by (auto simp add: renderResponse_def addFormMessage_def addMessage_js_def Let_def
        split: if_splits)
qed

lemma conversationDone_sendMessage_js_finish:
  assumes "conversationDone c"
  shows "conversationDone (sendMessage_js_finish page reply c)"
proof (cases reply)
  case None
  with assms show ?thesis by (simp add: sendMessage_js_finish_def addMessage_js_def)
next
  case (Some data)
  show ?thesis
  proof (cases "renderResponse page data (c\<lparr>typing := False\<rparr>)")
    case (Inl e)
    with Some assms show ?thesis by (simp add: sendMessage_js_finish_def addMessage_js_def)
  next
    case (Inr c')
    from conversationDone_renderResponse[OF Inr] assms have "conversationDone c'" by simp
    with Some Inr show ?thesis by (simp add: sendMessage_js_finish_def)
  qed
qed

lemma sendMessage_js_done:
  "conversationDone c \<Longrightarrow> sendMessage_js page t reply c = (None, c)"
  by (simp add: sendMessage_js_def sendMessage_js_start_def)

lemma run_js_done:
  "conversationDone c \<Longrightarrow> run_js page evs c = ([], c)"
  by (induction evs) (auto simp add: sendMessage_js_done)

lemma sendMessage_start_iff:
  "(fst (sendMessage_start msg st) \<noteq> None) =
     (truthy (ChatState.sessionId st) \<and> \<not> isLoading st \<and> \<not> isDone st)"
  by (simp add: sendMessage_start_def)

lemma invoke_done:
  "isDone st \<Longrightarrow> invoke a reply st = (None, st)"
  by (cases a) (simp_all add: sendMessage_def sendMessage_start_def submitForm_def submitForm_start_def)

lemma run_done:
  "isDone st \<Longrightarrow> run evs st = ([], st)"
  by (induction evs) (auto simp add: invoke_done)

lemma isDone_handleResponse: "isDone (handleResponse r st) = done r"
  by (simp add: handleResponse_def addMessage_def Let_def)

text \<open>
  In the script client a response is rendered inside the \<^verbatim>\<open>try\<close> of
  \<^verbatim>\<open>sendMessage\<close>. When the rendering throws, as \<^verbatim>\<open>createFieldInput\<close> does for a
  field named \<^verbatim>\<open>constructor\<close>, \<^verbatim>\<open>conversationDone\<close> is not set although the
  response has \<^verbatim>\<open>done\<close>, the \<^verbatim>\<open>catch\<close> enables the input again, and the next
  invocation issues a request.
\<close>

lemma sendMessage_js_after_failed_render:
  "renderResponse page (constructor_response\<lparr>done := True\<rparr>) c = Inl TypeError
   \<and> fst (run_js plain_page
            [(Plain ''hello'', Some (constructor_response\<lparr>done := True\<rparr>)), (Plain ''again'', None)]
            established_js)
     = [POST_chat \<lparr>ChatRequest.session_id = ''s1'', ChatRequest.message = Plain ''hello''\<rparr>,
        POST_chat \<lparr>ChatRequest.session_id = ''s1'', ChatRequest.message = Plain ''again''\<rparr>]"
  by (simp add: constructor_response_def constructor_field_def renderResponse_def
      addMultiFieldForm_def assign_input_def createFieldInput_def property_def FIELD_OPTIONS_def
      Object_prototype_def established_js_def startSession_def startSession_start_def
      startSession_finish_def greeting_response_def initialClient_def addMessage_js_def
      sendMessage_js_def sendMessage_js_start_def sendMessage_js_finish_def truthy_def blank_def
      trim_def isWhiteSpace_def Let_def)

text \<open>
  Claim C8, as stated: an invocation of \<^verbatim>\<open>sendMessage\<close> issues a chat request iff
  a session identifier is established, no response with \<^verbatim>\<open>done\<close> has been handled
  and the trimmed text is non-empty. For the hook's \<^verbatim>\<open>sendMessage\<close> both directions
  fail: while a request is in flight it issues none although the three conditions hold,
  and it issues a request for a blank text.
\<close>

theorem sendMessage_guard_counterexample:
  "truthy (ChatState.sessionId (snd (sendMessage_start ''hello'' established)))
   \<and> \<not> isDone (snd (sendMessage_start ''hello'' established))
   \<and> trim ''again'' \<noteq> []
   \<and> fst (sendMessage_start ''again'' (snd (sendMessage_start ''hello'' established))) = None
   \<and> trim ''  '' = []
   \<and> fst (sendMessage_start ''  '' established)
       = Some (POST_chat \<lparr>ChatRequest.session_id = ''s1'', ChatRequest.message = Plain ''  ''\<rparr>)"
  by (simp add: established_def initSession_def initSession_start_def initSession_finish_def
      handleResponse_def addMessage_def initialState_def greeting_response_def
      sendMessage_start_def sendChatMessage_def createSession_def truthy_def trim_def
      isWhiteSpace_def Let_def)

text \<open>
  Claim C8, amended: the script client's \<^verbatim>\<open>sendMessage\<close> issues a chat request
  iff a session identifier is established, the flag \<^verbatim>\<open>conversationDone\<close> is not set
  and the trimmed text is non-empty. \<^verbatim>\<open>renderResponse\<close>, when it returns, leaves
  the flag set iff it was set or the response has \<^verbatim>\<open>done\<close>; nothing clears the
  flag; so once a response with \<^verbatim>\<open>done\<close> has been rendered without an exception,
  no later invocation issues a request. The hook's \<^verbatim>\<open>sendMessage\<close> issues a chat
  request iff a session identifier is established, no request is in flight and the last
  response handled did not have \<^verbatim>\<open>done\<close>; it does not look at the text, which its
  caller \<^verbatim>\<open>ChatInput\<close> trims and passes only when non-empty; once the hook has
  handled a response with \<^verbatim>\<open>done\<close>, no later invocation issues a request.
\<close>

theorem sendMessage_request_iff:
  "(fst (sendMessage_js_start (Plain s) c) \<noteq> None) =
       (truthy (Client.sessionId c) \<and> \<not> conversationDone c \<and> trim s \<noteq> [])
   \<and> (renderResponse page r c = Inr c' \<longrightarrow> conversationDone c' = (conversationDone c \<or> done r))
   \<and> (conversationDone d \<longrightarrow>
        conversationDone (sendMessage_js_finish page reply d) \<and> fst (run_js page evs_js d) = [])
   \<and> (done r \<and> (\<exists>c''. renderResponse page r (c\<lparr>typing := False\<rparr>) = Inr c'') \<longrightarrow>
        fst (run_js page evs_js (sendMessage_js_finish page (Some r) c)) = [])
   \<and> (fst (sendMessage_start msg st) \<noteq> None) =
       (truthy (ChatState.sessionId st) \<and> \<not> isLoading st \<and> \<not> isDone st)
   \<and> isDone (handleResponse r st) = done r
   \<and> (done r \<longrightarrow> fst (run evs (sendMessage_finish (Some r) st)) = []
                 \<and> fst (run evs (submitForm_finish (Some r) st)) = [])
   \<and> (ChatInput_handleSend disabled input = Some t \<longrightarrow> t = trim input \<and> trim t \<noteq> [])"
proof -
  have a: "(fst (sendMessage_js_start (Plain s) c) \<noteq> None) =
       (truthy (Client.sessionId c) \<and> \<not> conversationDone c \<and> trim s \<noteq> [])"
    by (simp add: sendMessage_js_start_def blank_def)
  have a': "conversationDone c' = (conversationDone c \<or> done r)"
    if "renderResponse page r c = Inr c'"
    using that by (rule conversationDone_renderResponse)
  have a'': "conversationDone (sendMessage_js_finish page reply d) \<and> fst (run_js page evs_js d) = []"
    if "conversationDone d"
    using that by (simp add: conversationDone_sendMessage_js_finish run_js_done)
  have b: "fst (run_js page evs_js (sendMessage_js_finish page (Some r) c)) = []"
    if "done r \<and> (\<exists>c''. renderResponse page r (c\<lparr>typing := False\<rparr>) = Inr c'')"
  proof -
    from that obtain c'' where 1: "renderResponse page r (c\<lparr>typing := False\<rparr>) = Inr c''"
      and 2: "done r" by blast
    from conversationDone_renderResponse[OF 1] 2 have "conversationDone c''" by simp
    with 1 have "conversationDone (sendMessage_js_finish page (Some r) c)"
      by (simp add: sendMessage_js_finish_def)
    then show ?thesis by (simp add: run_js_done)
  qed
  have c: "fst (run evs (sendMessage_finish (Some r) st)) = []
         \<and> fst (run evs (submitForm_finish (Some r) st)) = []" if "done r"
  proof -
    have "isDone (sendMessage_finish (Some r) st)" "isDone (submitForm_finish (Some r) st)"
      using that by (simp_all add: sendMessage_finish_def submitForm_finish_def isDone_handleResponse)
    then show ?thesis by (simp add: run_done)
  qed
  have d: "t = trim input \<and> trim t \<noteq> []" if "ChatInput_handleSend disabled input = Some t"
    using ChatInput_handleSend_Some[OF that] by simp
  from a a' a'' b c d sendMessage_start_iff isDone_handleResponse
  show ?thesis by blast
qed

theorem sendMessage_request_iff_witness:
  "done handoff_response
   \<and> (\<exists>c''. renderResponse plain_page handoff_response (established_js\<lparr>typing := False\<rparr>) = Inr c'')
   \<and> conversationDone (sendMessage_js_finish plain_page (Some handoff_response) established_js)
   \<and> fst (run_js plain_page [(Plain ''hello'', Some (greeting_response ''s1''))]
            (sendMessage_js_finish plain_page (Some handoff_response) established_js)) = []
   \<and> fst (run [(SendMessage ''hello'', Some (greeting_response ''s1'')),
               (SubmitForm [(''days'', JArray [''Mon''])], Some (greeting_response ''s1''))]
            (sendMessage_finish (Some handoff_response) established)) = []
   \<and> fst (sendMessage_js_start (Plain ''yes'') established_js)
       = Some (POST_chat \<lparr>ChatRequest.session_id = ''s1'', ChatRequest.message = Plain ''yes''\<rparr>)
   \<and> fst (sendMessage_start ''yes'' established)
       = Some (POST_chat \<lparr>ChatRequest.session_id = ''s1'', ChatRequest.message = Plain ''yes''\<rparr>)
   \<and> ChatInput_handleSend False '' yes '' = Some ''yes''"
  using sendMessage_request_iff [where r = handoff_response and c = established_js
      and page = plain_page
      and c' = "sendMessage_js_finish plain_page (Some handoff_response) established_js"
      and d = "sendMessage_js_finish plain_page (Some handoff_response) established_js"
      and reply = None
      and disabled = False and input = "'' yes ''" and t = "''yes''"
      and st = established and evs_js = "[(Plain ''hello'', Some (greeting_response ''s1''))]"
      and evs = "[(SendMessage ''hello'', Some (greeting_response ''s1'')),
               (SubmitForm [(''days'', JArray [''Mon''])], Some (greeting_response ''s1''))]"]
  by (simp add: handoff_response_def established_js_def established_def startSession_def
      startSession_start_def startSession_finish_def renderResponse_def addMessage_js_def
      greeting_response_def initialClient_def sendMessage_js_start_def sendMessage_js_finish_def
      truthy_def blank_def
      trim_def isWhiteSpace_def initSession_def initSession_start_def initSession_finish_def
      handleResponse_def addMessage_def initialState_def sendMessage_start_def
      sendChatMessage_def createSession_def ChatInput_handleSend_def Let_def)


section \<open>A form response without a control\<close>

lemma renderForm_null:
  assumes "responseType st = Form"
    and "ChatState.fields' st = None \<or> ChatState.fields' st = Some []"
    and "ChatState.options st = None \<or> ChatState.options st = Some []"
    and "currentStep st \<notin> {''consent_given'', ''collecting_identity'', ''awaiting_pin'', ''scheduling''}"
    and "\<not> startsWith (currentStep st) ''collecting_group:''"
    and "\<not> startsWith (currentStep st) ''prescreen:''"
  shows "renderForm st = None" and "\<not> showTextInput st"
  using assms by (auto simp add: renderForm_def showTextInput_def)

text \<open>
  Claim C9. If a response has type form, its fields and its options are each null or
  empty, its step is none of \<^verbatim>\<open>consent_given\<close>, \<^verbatim>\<open>collecting_identity\<close>,
  \<^verbatim>\<open>awaiting_pin\<close> and \<^verbatim>\<open>scheduling\<close> and starts with neither
  \<^verbatim>\<open>collecting_group:\<close> nor \<^verbatim>\<open>prescreen:\<close>, then, once the response is handled,
  \<^verbatim>\<open>renderForm\<close> returns null and the text input is not shown, whether or not a
  request is in flight.
\<close>

theorem renderForm_no_input_control:
  assumes "ChatResponse.type r = Form"
    and "ChatResponse.fields' r = None \<or> ChatResponse.fields' r = Some []"
    and "ChatResponse.options r = None \<or> ChatResponse.options r = Some []"
    and "step r \<notin> {''consent_given'', ''collecting_identity'', ''awaiting_pin'', ''scheduling''}"
    and "\<not> startsWith (step r) ''collecting_group:''"
    and "\<not> startsWith (step r) ''prescreen:''"
  shows "renderForm ((handleResponse r st)\<lparr>isLoading := loading\<rparr>) = None
         \<and> \<not> showTextInput ((handleResponse r st)\<lparr>isLoading := loading\<rparr>)"
proof -
  let ?st = "(handleResponse r st)\<lparr>isLoading := loading\<rparr>"
  have "responseType ?st = Form" using assms(1) by (simp add: handleResponse_props)
  moreover have "ChatState.fields' ?st = None \<or> ChatState.fields' ?st = Some []"
    using assms(2) by (simp add: handleResponse_props)
  moreover have "ChatState.options ?st = None \<or> ChatState.options ?st = Some []"
    using assms(3) by (simp add: handleResponse_props)
  moreover have "currentStep ?st \<notin> {''consent_given'', ''collecting_identity'', ''awaiting_pin'', ''scheduling''}"
    using assms(4) by (simp add: handleResponse_props)
  moreover have "\<not> startsWith (currentStep ?st) ''collecting_group:''"
    using assms(5) by (simp add: handleResponse_props)
  moreover have "\<not> startsWith (currentStep ?st) ''prescreen:''"
    using assms(6) by (simp add: handleResponse_props)
  ultimately show ?thesis using renderForm_null[of ?st] by blast
qed

theorem renderForm_no_input_control_witness:
  "ChatResponse.type bare_form_response = Form
   \<and> ChatResponse.fields' bare_form_response = Some []
   \<and> ChatResponse.options bare_form_response = None
   \<and> step bare_form_response = ''eligibility''
   \<and> renderForm (sendMessage_finish (Some bare_form_response) established) = None
   \<and> \<not> showTextInput (sendMessage_finish (Some bare_form_response) established)"
  using renderForm_no_input_control [where r = bare_form_response and st = established and loading = False]
  by (simp add: bare_form_response_def sendMessage_finish_def startsWith_def)


section \<open>Phone formatting\<close>

lemma isDigit_dash: "\<not> isDigit CHR ''-''"
  by (simp add: isDigit_def)

lemma all_digits_filter: "\<forall>c\<in>set (filter isDigit s). isDigit c"
  by simp

lemma filter_digits_take: "filter isDigit (take n (filter isDigit s)) = take n (filter isDigit s)"
  by (rule filter_True) (meson all_digits_filter in_set_takeD)

lemma filter_digits_drop: "filter isDigit (drop n (filter isDigit s)) = drop n (filter isDigit s)"
  by (rule filter_True) (meson all_digits_filter in_set_dropD)

lemma filter_digits_slice:
  "filter isDigit (slice (filter isDigit s) a b) = slice (filter isDigit s) a b"
  unfolding slice_def by (rule filter_True) (meson all_digits_filter in_set_takeD in_set_dropD)

lemma take_3_3_4: "take 3 xs @ take 3 (drop 3 xs) @ take 4 (drop 6 xs) = take 10 xs"
proof -
  have "take 10 xs = take (3 + 7) xs" by simp
  also have "\<dots> = take 3 xs @ take 7 (drop 3 xs)" by (simp only: take_add)
  also have "take 7 (drop 3 xs) = take (3 + 4) (drop 3 xs)" by simp
  also have "\<dots> = take 3 (drop 3 xs) @ take 4 (drop 3 (drop 3 xs))" by (simp only: take_add)
  finally show ?thesis by simp
qed

lemma formatPhone_unfold:
  assumes "filter isDigit s = d"
  shows "formatPhone s =
     (if length d \<le> 3 then d
      else if length d \<le> 6 then slice d 0 3 @ ''-'' @ drop 3 d
      else slice d 0 3 @ ''-'' @ slice d 3 6 @ ''-'' @ slice d 6 10)"
  using assms by (simp add: formatPhone_def Let_def)

lemma digits_formatPhone:
  "filter isDigit (formatPhone s) = take 10 (filter isDigit s)"
proof -
  define d where "d = filter isDigit s"
  have fs: "\<And>a b. filter isDigit (slice d a b) = slice d a b"
    unfolding d_def by (rule filter_digits_slice)
  have fdr: "\<And>n. filter isDigit (drop n d) = drop n d"
    unfolding d_def by (rule filter_digits_drop)
  have fd: "filter isDigit d = d" by (simp add: d_def)
  note u = formatPhone_unfold[of s d, OF d_def[symmetric]]
  consider "length d \<le> 3" | "3 < length d" "length d \<le> 6" | "6 < length d" by linarith
  then have "filter isDigit (formatPhone s) = take 10 d"
  proof cases
    case 1
    then show ?thesis by (simp add: u fd)
  next
    case 2
    have "filter isDigit (formatPhone s) = slice d 0 3 @ drop 3 d"
      using 2 by (simp add: u fs fdr isDigit_dash)
    also have "\<dots> = take 10 d" using 2 by (simp add: slice_def)
    finally show ?thesis .
  next
    case 3
    have "filter isDigit (formatPhone s) = slice d 0 3 @ slice d 3 6 @ slice d 6 10"
      using 3 by (simp add: u fs isDigit_dash)
    also have "\<dots> = take 10 d" using take_3_3_4[of d] by (simp add: slice_def)
    finally show ?thesis .
  qed
  then show ?thesis by (simp add: d_def)
qed

lemma formatPhone_take10:
  "formatPhone (take 10 (filter isDigit s)) = formatPhone s"
proof -
  define d where "d = filter isDigit s"
  have ft: "filter isDigit (take 10 d) = take 10 d"
    unfolding d_def by (rule filter_digits_take)
  note u = formatPhone_unfold[of s d, OF d_def[symmetric]]
  note u' = formatPhone_unfold[of "take 10 d" "take 10 d", OF ft]
  consider "length d \<le> 3" | "3 < length d" "length d \<le> 6" | "6 < length d" by linarith
  then have "formatPhone (take 10 d) = formatPhone s"
  proof cases
    case 1
    have fd: "filter isDigit d = d" by (simp add: d_def)
    from 1 show ?thesis by (simp add: u formatPhone_unfold[of d d, OF fd])
  next
    case 2
    have fd: "filter isDigit d = d" by (simp add: d_def)
    from 2 show ?thesis by (simp add: u formatPhone_unfold[of d d, OF fd])
  next
    case 3
    then show ?thesis by (simp add: u u' slice_def min_def take_drop)
  qed
  then show ?thesis by (simp add: d_def)
qed

text \<open>
  Claim C10. \<^verbatim>\<open>formatPhone\<close> of the identity form is idempotent:
  \<open>formatPhone (formatPhone s) = formatPhone s\<close> for every string \<open>s\<close>. The digits of
  its output are the first ten digits of the input, later digits being discarded, and
  with ten digits or more the output is the twelve characters \<^verbatim>\<open>XXX-XXX-XXXX\<close>
  made of those ten digits.
\<close>

theorem formatPhone_idempotent_first_ten:
  "formatPhone (formatPhone s) = formatPhone s
   \<and> filter isDigit (formatPhone s) = take 10 (filter isDigit s)
   \<and> (10 \<le> length (filter isDigit s) \<longrightarrow>
        formatPhone s = slice (filter isDigit s) 0 3 @ ''-'' @ slice (filter isDigit s) 3 6
                        @ ''-'' @ slice (filter isDigit s) 6 10
        \<and> length (formatPhone s) = 12)"
proof -
  have "formatPhone (formatPhone s) = formatPhone (take 10 (filter isDigit (formatPhone s)))"
    by (simp only: formatPhone_take10)
  also have "\<dots> = formatPhone (take 10 (take 10 (filter isDigit s)))"
    by (simp only: digits_formatPhone)
  also have "\<dots> = formatPhone s" by (simp add: formatPhone_take10)
  finally have idem: "formatPhone (formatPhone s) = formatPhone s" .
  have long: "10 \<le> length (filter isDigit s) \<longrightarrow>
        formatPhone s = slice (filter isDigit s) 0 3 @ ''-'' @ slice (filter isDigit s) 3 6
                        @ ''-'' @ slice (filter isDigit s) 6 10
        \<and> length (formatPhone s) = 12"
    by (simp add: formatPhone_def Let_def slice_def)
  from idem digits_formatPhone long show ?thesis by blast
qed

theorem formatPhone_idempotent_first_ten_witness:
  "10 \<le> length (filter isDigit ''(919) 555-0100 ext 7'')
   \<and> formatPhone ''(919) 555-0100 ext 7'' = ''919-555-0100''
   \<and> formatPhone (formatPhone ''(919) 555-0100 ext 7'') = ''919-555-0100''
   \<and> filter isDigit (formatPhone ''(919) 555-0100 ext 7'') = ''9195550100''"
  using formatPhone_idempotent_first_ten [of "''(919) 555-0100 ext 7''"]
  by (simp add: formatPhone_def isDigit_def slice_def)

end
